theory Spec2Isabelle
  imports Complex_Main
begin

section \<open>Python values, dictionaries and exceptions\<close>

text \<open>
  The page \<^verbatim>\<open>app/src/pages/01_Playground.py\<close> handles JSON data: the values of a
  decoded JSON document are \<open>pyval\<close>. A Python \<^verbatim>\<open>float\<close> is kept as the real number it
  stands for (the rounding of binary floating point is not part of the model); a \<^verbatim>\<open>dict\<close>
  with string keys is an association list read with \<open>map_of\<close>.
\<close>

datatype pyval =
    PNone
  | PBool bool
  | PInt int
  | PFloat real
  | PStr string
  | PList "pyval list"
  | PDict "(string \<times> pyval) list"

type_synonym pydict = "(string \<times> pyval) list"

datatype error =
    RequestException string
  | KeyError string
  | ValueError
  | TypeError
  | AttributeError
  | IndexError
  | OverflowError
  | StreamlitAPIException

text \<open>Truthiness, as \<^verbatim>\<open>if v:\<close> tests it.\<close>

fun truthy :: "pyval \<Rightarrow> bool" where
  "truthy PNone = False"
| "truthy (PBool b) = b"
| "truthy (PInt n) = (n \<noteq> 0)"
| "truthy (PFloat r) = (r \<noteq> 0)"
| "truthy (PStr s) = (s \<noteq> [])"
| "truthy (PList xs) = (xs \<noteq> [])"
| "truthy (PDict d) = (d \<noteq> [])"

text \<open>\<^verbatim>\<open>d.get(k, default)\<close> and \<^verbatim>\<open>d[k]\<close> on a dictionary.\<close>

definition dict_get :: "pydict \<Rightarrow> string \<Rightarrow> pyval \<Rightarrow> pyval" where
  "dict_get d k dflt = (case map_of d k of None \<Rightarrow> dflt | Some v \<Rightarrow> v)"

definition dict_item :: "pydict \<Rightarrow> string \<Rightarrow> error + pyval" where
  "dict_item d k = (case map_of d k of None \<Rightarrow> Inl (KeyError k) | Some v \<Rightarrow> Inr v)"

text \<open>\<^verbatim>\<open>v.get(k, default)\<close> on any value: only a dictionary has the method.\<close>

fun py_get :: "pyval \<Rightarrow> string \<Rightarrow> pyval \<Rightarrow> error + pyval" where
  "py_get (PDict d) k dflt = Inr (dict_get d k dflt)"
| "py_get _ k dflt = Inl AttributeError"

text \<open>\<^verbatim>\<open>for x in v\<close>: the items a value yields, or \<^verbatim>\<open>TypeError\<close>.\<close>

fun py_iter :: "pyval \<Rightarrow> error + pyval list" where
  "py_iter (PList xs) = Inr xs"
| "py_iter (PStr s) = Inr (map (\<lambda>c. PStr [c]) s)"
| "py_iter (PDict d) = Inr (map (\<lambda>kv. PStr (fst kv)) d)"
| "py_iter _ = Inl TypeError"

text \<open>\<^verbatim>\<open>xs[:-4]\<close>: everything but the last four items, nothing when there are fewer.\<close>

definition drop_last4 :: "'a list \<Rightarrow> 'a list" where
  "drop_last4 xs = take (length xs - 4) xs"

text \<open>The decimal text of a status code, as an f-string prints it.\<close>

fun str_nat :: "nat \<Rightarrow> string" where
  "str_nat n =
     (if n < 10 then [char_of (48 + n)]
      else str_nat (n div 10) @ [char_of (48 + n mod 10)])"

declare str_nat.simps [simp del]

section \<open>The backend, seen from the page\<close>

text \<open>
  A call of \<^verbatim>\<open>requests.get\<close> or \<^verbatim>\<open>requests.post\<close> is a \<open>request\<close>: method, URL, the
  \<^verbatim>\<open>timeout=\<close> argument in seconds (\<open>None\<close> when the call passes none) and the JSON
  body. The backend is a parameter \<open>http\<close> of every function that calls it: it either
  raises or answers with a status code and a JSON document (the backend is taken to
  answer in JSON, so \<^verbatim>\<open>response.json()\<close> decodes).
\<close>

datatype request =
  Request (req_method: string) (req_url: string) (req_timeout: "nat option")
    (req_json: "pyval option")

datatype http_outcome =
    Raised error
  | Response nat pyval

type_synonym backend = "request \<Rightarrow> http_outcome"

text \<open>
  What a run of the page does besides computing: the requests it sends, the messages
  it shows (the emoji of the source's messages are left out), a rerun, a cache clear.
  \<open>UiErrorValue m v\<close> is the message \<open>m\<close> followed by the text of the value \<open>v\<close>.
\<close>

datatype event =
    HttpCall request
  | UiError string
  | UiErrorValue string pyval
  | UiWarning string
  | UiSuccess string
  | CacheClear
  | Rerun

text \<open>
  A piece of the script performs events and then either raises or yields a value.
\<close>

type_synonym 'a run = "event list \<times> (error + 'a)"

definition http_calls :: "event list \<Rightarrow> request list" where
  "http_calls evs = concat (map (\<lambda>e. case e of HttpCall r \<Rightarrow> [r] | _ \<Rightarrow> []) evs)"

definition ui_errors :: "event list \<Rightarrow> string list" where
  "ui_errors evs = concat (map (\<lambda>e. case e of UiError m \<Rightarrow> [m] | _ \<Rightarrow> []) evs)"

definition API_BASE_URL :: string where
  "API_BASE_URL = ''http://web-api:4000''"

definition FEATURE_MAPPING :: "(string \<times> string) list" where
  "FEATURE_MAPPING =
     [(''Population'', ''Population''),
      (''GDP per capita'', ''GDP_per_capita''),
      (''Trade union density'', ''Trade_union_density''),
      (''Unemployment rate'', ''Unemployment_rate''),
      (''Health'', ''Health''),
      (''Education'', ''Education''),
      (''Housing'', ''Housing''),
      (''Community development'', ''Community_development''),
      (''Productivity'', ''Productivity''),
      (''Inflation'', ''Inflation''),
      (''IRLT'', ''IRLT'')]"

text \<open>\<^verbatim>\<open>{v: k for k, v in FEATURE_MAPPING.items()}\<close>; the values are distinct.\<close>

definition backend_to_display :: "(string \<times> string) list" where
  "backend_to_display = map (\<lambda>kv. (snd kv, fst kv)) FEATURE_MAPPING"

text \<open>An exception that \<^verbatim>\<open>except requests.exceptions.RequestException\<close> catches.\<close>

fun str_of_request_exception :: "error \<Rightarrow> string option" where
  "str_of_request_exception (RequestException m) = Some m"
| "str_of_request_exception _ = None"

subsection \<open>\<^verbatim>\<open>fetch_available_features\<close>\<close>

definition features_request :: request where
  "features_request = Request ''GET'' (API_BASE_URL @ ''/playground/features'') (Some 10) None"

definition fetch_available_features :: "backend \<Rightarrow> pyval run" where
  "fetch_available_features http =
     (case http features_request of
        Response code body \<Rightarrow>
          if code = 200 then
            (case py_get body ''features'' (PList []) of
               Inl e \<Rightarrow> ([HttpCall features_request], Inl e)
             | Inr v \<Rightarrow> ([HttpCall features_request], Inr v))
          else
            ([HttpCall features_request,
              UiError (''Failed to fetch features: '' @ str_nat code)], Inr PNone)
      | Raised e \<Rightarrow>
          (case str_of_request_exception e of
             Some m \<Rightarrow>
               ([HttpCall features_request,
                 UiError (''Error connecting to backend: '' @ m)], Inr PNone)
           | None \<Rightarrow> ([HttpCall features_request], Inl e)))"

section \<open>Session state\<close>

record graph_series =
  x_values :: pyval
  y_values :: pyval
  feature_name :: pyval

text \<open>
  The keys of \<^verbatim>\<open>st.session_state\<close> this page reads or writes; \<open>None\<close> is a key that is
  absent or holds \<^verbatim>\<open>None\<close>. \<open>loaded_graph\<close> holds whatever value was stored (line 176
  stores the backend's answer as it is); a selected preset is the dictionary built at
  lines 322-338.
\<close>

record session =
  graph_data :: "graph_series option"
  available_features :: "pyval list option"
  loaded_graph :: "pyval option"
  selected_preset :: "pydict option"
  loaded_graph_id :: "string option"

subsection \<open>Loading the feature list (lines 188-205)\<close>

text \<open>
  \<^verbatim>\<open>backend_to_display.get(backend_feature, backend_feature)\<close>: a list or a dictionary
  cannot be looked up (\<^verbatim>\<open>TypeError\<close>); a value that is no key of the mapping comes
  back unchanged.
\<close>

definition display_name :: "pyval \<Rightarrow> error + pyval" where
  "display_name backend_feature =
     (case backend_feature of
        PStr s \<Rightarrow> (case map_of backend_to_display s of
                     Some d \<Rightarrow> Inr (PStr d) | None \<Rightarrow> Inr (PStr s))
      | PList xs \<Rightarrow> Inl TypeError
      | PDict d \<Rightarrow> Inl TypeError
      | v \<Rightarrow> Inr v)"

text \<open>The loop of lines 197-199; it stops at the first item that raises.\<close>

fun display_names :: "pyval list \<Rightarrow> error + pyval list" where
  "display_names [] = Inr []"
| "display_names (backend_feature # rest) =
     (case display_name backend_feature of
        Inl e \<Rightarrow> Inl e
      | Inr shown \<Rightarrow>
          (case display_names rest of
             Inl e \<Rightarrow> Inl e
           | Inr display_features \<Rightarrow> Inr (shown # display_features)))"

definition fallback_features :: "pyval list" where
  "fallback_features = map (\<lambda>kv. PStr (fst kv)) FEATURE_MAPPING"

definition load_available_features :: "backend \<Rightarrow> session \<Rightarrow> session run" where
  "load_available_features http st =
     (case available_features st of
        Some fs \<Rightarrow> ([], Inr st)
      | None \<Rightarrow>
          (case fetch_available_features http of
             (evs, Inl e) \<Rightarrow> (evs, Inl e)
           | (evs, Inr backend_features) \<Rightarrow>
               if truthy backend_features then
                 (case py_iter backend_features of
                    Inl e \<Rightarrow> (evs, Inl e)
                  | Inr items \<Rightarrow>
                      (case display_names items of
                         Inl e \<Rightarrow> (evs, Inl e)
                       | Inr display_features \<Rightarrow>
                           (evs, Inr (st\<lparr>available_features := Some display_features\<rparr>))))
               else
                 (evs @ [UiWarning ''Backend unavailable - using default features''],
                  Inr (st\<lparr>available_features := Some fallback_features\<rparr>))))"

subsection \<open>The options of the x-axis selector (lines 499-500)\<close>

definition compare_feature_options :: "session \<Rightarrow> pyval list" where
  "compare_feature_options st =
     drop_last4
       (case available_features st of
          None \<Rightarrow> fallback_features
        | Some fs \<Rightarrow> if fs \<noteq> [] then fs else fallback_features)"

text \<open>
  A fetch that fails: the request raises a \<^verbatim>\<open>RequestException\<close> or the status is
  not 200.
\<close>

fun fetch_failed :: "http_outcome \<Rightarrow> bool" where
  "fetch_failed (Raised (RequestException m)) = True"
| "fetch_failed (Raised _) = False"
| "fetch_failed (Response code body) = (code \<noteq> 200)"

definition backend_down :: backend where
  "backend_down req = Raised (RequestException ''Connection refused'')"

definition empty_session :: session where
  "empty_session =
     \<lparr>graph_data = None, available_features = None, loaded_graph = None,
      selected_preset = None, loaded_graph_id = None\<rparr>"

section \<open>Coercions: \<^verbatim>\<open>int(v)\<close> and \<^verbatim>\<open>float(v)\<close>\<close>

text \<open>
  \<^verbatim>\<open>int\<close> of a string reads a decimal literal: optional white space around it (tab,
  line feed, vertical tab, form feed, carriage return, space), an optional sign, then
  digits that single underscores may separate. Anything else is a \<^verbatim>\<open>ValueError\<close>.
  (ASCII text; Python also accepts the digits and spaces of other scripts.)
\<close>

definition is_space :: "char \<Rightarrow> bool" where
  "is_space c = (let n = (of_char c :: nat) in (9 \<le> n \<and> n \<le> 13) \<or> n = 32)"

definition is_digit :: "char \<Rightarrow> bool" where
  "is_digit c = (let n = (of_char c :: nat) in 48 \<le> n \<and> n \<le> 57)"

definition digit_val :: "char \<Rightarrow> nat" where
  "digit_val c = of_char c - 48"

definition strip :: "string \<Rightarrow> string" where
  "strip s = rev (dropWhile is_space (rev (dropWhile is_space s)))"

fun digits_acc :: "nat \<Rightarrow> bool \<Rightarrow> string \<Rightarrow> nat option" where
  "digits_acc acc prev_digit [] = (if prev_digit then Some acc else None)"
| "digits_acc acc prev_digit (c # cs) =
     (if is_digit c then digits_acc (10 * acc + digit_val c) True cs
      else if c = CHR ''_'' \<and> prev_digit then digits_acc acc False cs
      else None)"

definition int_of_str :: "string \<Rightarrow> error + int" where
  "int_of_str s =
     (case strip s of
        [] \<Rightarrow> Inl ValueError
      | c # cs \<Rightarrow>
          if c = CHR ''-'' then
            (case digits_acc 0 False cs of None \<Rightarrow> Inl ValueError | Some n \<Rightarrow> Inr (- int n))
          else if c = CHR ''+'' then
            (case digits_acc 0 False cs of None \<Rightarrow> Inl ValueError | Some n \<Rightarrow> Inr (int n))
          else
            (case digits_acc 0 False (c # cs) of
               None \<Rightarrow> Inl ValueError | Some n \<Rightarrow> Inr (int n)))"

text \<open>\<^verbatim>\<open>int(v)\<close>: a float is cut towards zero.\<close>

fun py_int :: "pyval \<Rightarrow> error + int" where
  "py_int (PInt n) = Inr n"
| "py_int (PBool b) = Inr (if b then 1 else 0)"
| "py_int (PFloat r) = Inr (if 0 \<le> r then \<lfloor>r\<rfloor> else \<lceil>r\<rceil>)"
| "py_int (PStr s) = int_of_str s"
| "py_int _ = Inl TypeError"

text \<open>
  \<^verbatim>\<open>float(n)\<close> of an integer: exact up to \<open>2^53\<close> in size; above, the nearest number
  with 53 significant bits (a tie goes to the even one), and \<^verbatim>\<open>OverflowError\<close> when that
  number reaches \<open>2^1024\<close>.
\<close>

fun bit_len :: "nat \<Rightarrow> nat" where
  "bit_len n = (if n = 0 then 0 else Suc (bit_len (n div 2)))"

declare bit_len.simps [simp del]

definition float_of_int :: "int \<Rightarrow> error + real" where
  "float_of_int n =
     (let m = nat \<bar>n\<bar> in
      if m \<le> 2 ^ 53 then Inr (of_int n)
      else
        (let e = bit_len m - 53;
             q = m div 2 ^ e;
             r = m mod 2 ^ e;
             half = 2 ^ (e - 1);
             q' = (if half < r \<or> (r = half \<and> odd q) then q + 1 else q);
             rounded = q' * 2 ^ e
         in if 2 ^ 1024 \<le> rounded then Inl OverflowError
            else Inr (if n < 0 then - of_nat rounded else of_nat rounded)))"

text \<open>
  \<^verbatim>\<open>float(v)\<close>. How Python reads a float from text (exponents, rounding to the nearest
  double) is the parameter \<open>parse_float\<close>: \<open>None\<close> is text that \<^verbatim>\<open>float\<close> rejects.
\<close>

fun py_float :: "(string \<Rightarrow> real option) \<Rightarrow> pyval \<Rightarrow> error + real" where
  "py_float parse_float (PInt n) = float_of_int n"
| "py_float parse_float (PBool b) = Inr (if b then 1 else 0)"
| "py_float parse_float (PFloat r) = Inr r"
| "py_float parse_float (PStr s) =
     (case parse_float s of None \<Rightarrow> Inl ValueError | Some r \<Rightarrow> Inr r)"
| "py_float parse_float _ = Inl TypeError"

text \<open>\<^verbatim>\<open>int(value) if as_int else float(value)\<close>.\<close>

definition coerce :: "(string \<Rightarrow> real option) \<Rightarrow> bool \<Rightarrow> pyval \<Rightarrow> error + pyval" where
  "coerce parse_float as_int v =
     (if as_int then (case py_int v of Inl e \<Rightarrow> Inl e | Inr n \<Rightarrow> Inr (PInt n))
      else (case py_float parse_float v of Inl e \<Rightarrow> Inl e | Inr r \<Rightarrow> Inr (PFloat r)))"

text \<open>A conversion for the examples: it reads the texts that \<^verbatim>\<open>int\<close> reads.\<close>

definition parse_whole :: "string \<Rightarrow> real option" where
  "parse_whole s = (case int_of_str s of Inl e \<Rightarrow> None | Inr n \<Rightarrow> Some (of_int n))"

section \<open>Regions\<close>

definition region_options :: "string list" where
  "region_options =
     [''East Asia and Pacific'', ''Europe and Central Asia'',
      ''Latin America and Caribbean'', ''Middle East and North Africa'']"

text \<open>A list or a dictionary cannot be a dictionary key.\<close>

fun hashable :: "pyval \<Rightarrow> bool" where
  "hashable (PList xs) = False"
| "hashable (PDict d) = False"
| "hashable _ = True"

text \<open>
  \<^verbatim>\<open>map_regions\<close> (lines 137-146): a dictionary of four zeros, the entry of the given
  region set to 1 (a new entry when the region is not one of the four), and the four
  named entries read back.
\<close>

definition map_regions :: "pyval \<Rightarrow> error + (int \<times> int \<times> int \<times> int)" where
  "map_regions region =
     (if hashable region then
        (let regions = (map_of
               [(PStr ''East Asia and Pacific'', 0::int),
                (PStr ''Europe and Central Asia'', 0),
                (PStr ''Latin America and Caribbean'', 0),
                (PStr ''Middle East and North Africa'', 0)])(region \<mapsto> 1)
         in case (regions (PStr ''East Asia and Pacific''),
                  regions (PStr ''Europe and Central Asia''),
                  regions (PStr ''Latin America and Caribbean''),
                  regions (PStr ''Middle East and North Africa'')) of
              (Some a, Some b, Some c, Some d) \<Rightarrow> Inr (a, b, c, d)
            | _ \<Rightarrow> Inl (KeyError ''region''))
      else Inl TypeError)"

text \<open>\<^verbatim>\<open>v[k]\<close> on any value, and \<^verbatim>\<open>v == 1\<close>.\<close>

fun py_item :: "pyval \<Rightarrow> string \<Rightarrow> error + pyval" where
  "py_item (PDict d) k = dict_item d k"
| "py_item _ k = Inl TypeError"

definition eq_one :: "pyval \<Rightarrow> bool" where
  "eq_one v = (v = PInt 1 \<or> v = PFloat 1 \<or> v = PBool True)"

text \<open>
  \<^verbatim>\<open>get_region_from_features\<close> (lines 148-156): four tests in order; when none holds the
  function ends without a \<^verbatim>\<open>return\<close>, which yields \<^verbatim>\<open>None\<close>.
\<close>

definition get_region_from_features :: "pyval \<Rightarrow> error + pyval" where
  "get_region_from_features features =
     (case py_item features ''Region_East_Asia_and_Pacific'' of
        Inl e \<Rightarrow> Inl e
      | Inr v0 \<Rightarrow>
          if eq_one v0 then Inr (PInt 0)
          else
            (case py_item features ''Region_Europe_and_Central_Asia'' of
               Inl e \<Rightarrow> Inl e
             | Inr v1 \<Rightarrow>
                 if eq_one v1 then Inr (PInt 1)
                 else
                   (case py_item features ''Region_Latin_America_and_Caribbean'' of
                      Inl e \<Rightarrow> Inl e
                    | Inr v2 \<Rightarrow>
                        if eq_one v2 then Inr (PInt 2)
                        else
                          (case py_item features ''Region_Middle_East_and_North_Africa'' of
                             Inl e \<Rightarrow> Inl e
                           | Inr v3 \<Rightarrow>
                               if eq_one v3 then Inr (PInt 3) else Inr PNone))))"

section \<open>Applying a preset (lines 306-345)\<close>

text \<open>
  The scalar entries of \<^verbatim>\<open>preset_values\<close>, in the order of the dictionary display: key,
  the default of \<^verbatim>\<open>matching_entry.get\<close>, and whether the value goes through \<^verbatim>\<open>int\<close>
  (otherwise \<^verbatim>\<open>float\<close>).
\<close>

definition preset_fields :: "(string \<times> pyval \<times> bool) list" where
  "preset_fields =
     [(''Population'', PInt 22000000, True),
      (''GDP_per_capita'', PFloat 41000, False),
      (''Trade_union_density'', PFloat 33, False),
      (''Unemployment_rate'', PFloat 8, False),
      (''Health'', PFloat (64 / 1000), False),
      (''Education'', PFloat (52 / 1000), False),
      (''Housing'', PFloat (32 / 10000), False),
      (''Community_development'', PFloat (19 / 10000), False),
      (''Corporate_tax_rate'', PFloat 21, False),
      (''Inflation'', PFloat (21 / 10), False),
      (''IRLT'', PFloat (79 / 10), False)]"

fun coerce_fields ::
  "(string \<Rightarrow> real option) \<Rightarrow> pydict \<Rightarrow> (string \<times> pyval \<times> bool) list \<Rightarrow> error + pydict"
where
  "coerce_fields parse_float entry [] = Inr []"
| "coerce_fields parse_float entry ((k, dflt, as_int) # cols) =
     (case coerce parse_float as_int (dict_get entry k dflt) of
        Inl e \<Rightarrow> Inl e
      | Inr v \<Rightarrow>
          (case coerce_fields parse_float entry cols of
             Inl e \<Rightarrow> Inl e
           | Inr rest \<Rightarrow> Inr ((k, v) # rest)))"

text \<open>Lines 318-338: the region first, then the entries of \<^verbatim>\<open>preset_values\<close>.\<close>

definition apply_preset :: "(string \<Rightarrow> real option) \<Rightarrow> pydict \<Rightarrow> error + pydict" where
  "apply_preset parse_float matching_entry =
     (let region_name = dict_get matching_entry ''Region'' (PStr ''Europe and Central Asia'') in
      case map_regions region_name of
        Inl e \<Rightarrow> Inl e
      | Inr (east_asia, europe, latin_america, middle_east) \<Rightarrow>
          (case coerce_fields parse_float matching_entry preset_fields of
             Inl e \<Rightarrow> Inl e
           | Inr scalars \<Rightarrow>
               Inr (scalars @
                    [(''Region_East_Asia_and_Pacific'', PInt east_asia),
                     (''Region_Europe_and_Central_Asia'', PInt europe),
                     (''Region_Latin_America_and_Caribbean'', PInt latin_america),
                     (''Region_Middle_East_and_North_Africa'', PInt middle_east)])))"

text \<open>
  The button, on the branch where \<^verbatim>\<open>preset_data\<close> is not empty: the loaded graph is
  forgotten first; the preset is stored when the conversion did not raise. The third
  component is the exception that ends the run.
\<close>

definition apply_preset_button ::
  "(string \<Rightarrow> real option) \<Rightarrow> session \<Rightarrow> string \<Rightarrow> pydict
     \<Rightarrow> event list \<times> session \<times> error option"
where
  "apply_preset_button parse_float st selected_index matching_entry =
     (let st1 = st\<lparr>loaded_graph := None, loaded_graph_id := None\<rparr> in
      case apply_preset parse_float matching_entry of
        Inl e \<Rightarrow> ([], st1, Some e)
      | Inr preset_values \<Rightarrow>
          ([UiSuccess (''Applied preset: '' @ selected_index), Rerun],
           st1\<lparr>selected_preset := Some preset_values\<rparr>, None))"

text \<open>The four region indicators of a feature dictionary, in the fixed order.\<close>

definition region_keys :: "string list" where
  "region_keys =
     [''Region_East_Asia_and_Pacific'', ''Region_Europe_and_Central_Asia'',
      ''Region_Latin_America_and_Caribbean'', ''Region_Middle_East_and_North_Africa'']"

definition region_indicators :: "pydict \<Rightarrow> pyval option list" where
  "region_indicators features = map (map_of features) region_keys"

section \<open>Default values of the controls (lines 354-380)\<close>

text \<open>
  \<^verbatim>\<open>loaded_graph and 'features' in loaded_graph\<close>: the value of
  \<^verbatim>\<open>loaded_graph['features']\<close> when the test holds (a dictionary that has the key is
  not empty), \<open>None\<close> when it fails. The variable \<^verbatim>\<open>loaded_graph\<close> is \<open>lgraph\<close> here.
\<close>

definition graph_features :: "pydict option \<Rightarrow> pyval option" where
  "graph_features lgraph =
     (case lgraph of None \<Rightarrow> None | Some g \<Rightarrow> map_of g ''features'')"

text \<open>\<^verbatim>\<open>elif selected_preset_data\<close>: the preset when it is there and not empty.\<close>

definition preset_present :: "pydict option \<Rightarrow> pydict option" where
  "preset_present selected_preset_data =
     (case selected_preset_data of
        None \<Rightarrow> None
      | Some p \<Rightarrow> if p \<noteq> [] then Some p else None)"

definition get_default_value ::
  "(string \<Rightarrow> real option) \<Rightarrow> pydict option \<Rightarrow> pydict option
     \<Rightarrow> string \<Rightarrow> pyval \<Rightarrow> bool \<Rightarrow> error + pyval"
where
  "get_default_value parse_float lgraph selected_preset_data
       feature_key fallback_default as_int =
     (case (case graph_features lgraph of
              Some fs \<Rightarrow> py_get fs feature_key fallback_default
            | None \<Rightarrow>
                (case preset_present selected_preset_data of
                   Some p \<Rightarrow> Inr (dict_get p feature_key fallback_default)
                 | None \<Rightarrow> Inr fallback_default)) of
        Inl e \<Rightarrow> Inl e
      | Inr v \<Rightarrow> coerce parse_float as_int v)"

definition get_default_region :: "pydict option \<Rightarrow> pydict option \<Rightarrow> error + pyval" where
  "get_default_region lgraph selected_preset_data =
     (case graph_features lgraph of
        Some fs \<Rightarrow> get_region_from_features fs
      | None \<Rightarrow>
          (case preset_present selected_preset_data of
             Some p \<Rightarrow> get_region_from_features (PDict p)
           | None \<Rightarrow> Inr (PInt 0)))"

text \<open>
  The eleven calls of \<^verbatim>\<open>get_default_value\<close> (lines 383-466): key, hardcoded default,
  \<^verbatim>\<open>as_int\<close>.
\<close>

definition control_defaults :: "(string \<times> pyval \<times> bool) list" where
  "control_defaults =
     [(''Population'', PInt 22000000, True),
      (''GDP_per_capita'', PFloat 41000, False),
      (''Trade_union_density'', PFloat 33, False),
      (''Unemployment_rate'', PFloat 8, False),
      (''Health'', PFloat (64 / 1000), False),
      (''Education'', PFloat (52 / 1000), False),
      (''Housing'', PFloat (32 / 10000), False),
      (''Community_development'', PFloat (19 / 10000), False),
      (''Corporate_tax_rate'', PFloat 21, False),
      (''Inflation'', PFloat (21 / 10), False),
      (''IRLT'', PFloat (79 / 10), False)]"

definition default_of ::
  "(string \<Rightarrow> real option) \<Rightarrow> pydict option \<Rightarrow> pydict option
     \<Rightarrow> string \<times> pyval \<times> bool \<Rightarrow> error + pyval"
where
  "default_of parse_float lgraph selected_preset_data c =
     get_default_value parse_float lgraph selected_preset_data
       (fst c) (fst (snd c)) (snd (snd c))"

section \<open>The controls and the feature dictionary (lines 382-473, 514-533)\<close>

text \<open>
  The values the widgets hold when a button handler runs: population is an integer
  input, the other ten scalars and the range are float inputs, the four region
  variables come from \<^verbatim>\<open>map_regions(region)\<close>, \<open>steps\<close> is an integer input whose
  value lies between 5 and 100 (see \<open>steps_input\<close> below).
\<close>

record controls =
  population :: int
  gdp_per_capita :: real
  trade_union :: real
  unemployment :: real
  health :: real
  education :: real
  housing :: real
  community :: real
  corporate_tax :: real
  inflation :: real
  irlt :: real
  east_asia :: int
  europe :: int
  latin_america :: int
  middle_east :: int
  compare_feature :: string
  x_min :: real
  x_max :: real
  steps :: int

text \<open>Line 473: \<^verbatim>\<open>east_asia, europe, latin_america, middle_east = map_regions(region)\<close>.\<close>

definition set_region :: "controls \<Rightarrow> pyval \<Rightarrow> error + controls" where
  "set_region c region =
     (case map_regions region of
        Inl e \<Rightarrow> Inl e
      | Inr (a, b, l, m) \<Rightarrow>
          Inr (c\<lparr>east_asia := a, europe := b, latin_america := l, middle_east := m\<rparr>))"

definition feature_values :: "controls \<Rightarrow> pydict" where
  "feature_values c =
     [(''Population'', PInt (population c)),
      (''GDP_per_capita'', PFloat (gdp_per_capita c)),
      (''Trade_union_density'', PFloat (trade_union c)),
      (''Unemployment_rate'', PFloat (unemployment c)),
      (''Health'', PFloat (health c)),
      (''Education'', PFloat (education c)),
      (''Housing'', PFloat (housing c)),
      (''Community_development'', PFloat (community c)),
      (''Corporate_tax_rate'', PFloat (corporate_tax c)),
      (''Inflation'', PFloat (inflation c)),
      (''IRLT'', PFloat (irlt c)),
      (''Region_East_Asia_and_Pacific'', PInt (east_asia c)),
      (''Region_Europe_and_Central_Asia'', PInt (europe c)),
      (''Region_Latin_America_and_Caribbean'', PInt (latin_america c)),
      (''Region_Middle_East_and_North_Africa'', PInt (middle_east c))]"

text \<open>The region indicators a preset ends up with, or the exception.\<close>

definition preset_regions ::
  "(string \<Rightarrow> real option) \<Rightarrow> pydict \<Rightarrow> error + pyval option list"
where
  "preset_regions parse_float matching_entry =
     (case apply_preset parse_float matching_entry of
        Inl e \<Rightarrow> Inl e
      | Inr preset_values \<Rightarrow> Inr (region_indicators preset_values))"

definition example_controls :: controls where
  "example_controls =
     \<lparr>population = 22000000, gdp_per_capita = 41000, trade_union = 33, unemployment = 8,
      health = 64 / 1000, education = 52 / 1000, housing = 32 / 10000,
      community = 19 / 10000, corporate_tax = 21, inflation = 21 / 10, irlt = 79 / 10,
      east_asia = 1, europe = 0, latin_america = 0, middle_east = 0,
      compare_feature = ''Population'', x_min = 0, x_max = 10, steps = 20\<rparr>"

section \<open>The other calls of the backend\<close>

text \<open>
  User and graph identifiers are kept as the text an f-string prints for them.
\<close>

subsection \<open>\<^verbatim>\<open>save_graph_to_backend\<close> (lines 54-70)\<close>

definition save_request ::
  "string \<Rightarrow> string \<Rightarrow> string \<Rightarrow> real \<Rightarrow> real \<Rightarrow> int \<Rightarrow> pydict \<Rightarrow> request"
where
  "save_request user_id graph_name x_axis xmin xmax xsteps fvalues =
     Request ''POST'' (API_BASE_URL @ ''/playground/save'') (Some 10)
       (Some (PDict
          ([(''user_id'', PStr user_id), (''name'', PStr graph_name),
            (''x_axis'', PStr x_axis), (''x_min'', PFloat xmin), (''x_max'', PFloat xmax),
            (''x_steps'', PInt xsteps)] @ fvalues)))"

definition save_graph_to_backend ::
  "backend \<Rightarrow> string \<Rightarrow> string \<Rightarrow> string \<Rightarrow> real \<Rightarrow> real \<Rightarrow> int \<Rightarrow> pydict
     \<Rightarrow> (bool \<times> pyval) run"
where
  "save_graph_to_backend http user_id graph_name x_axis xmin xmax xsteps fvalues =
     (let req = save_request user_id graph_name x_axis xmin xmax xsteps fvalues in
      case http req of
        Response code body \<Rightarrow> ([HttpCall req], Inr (code = 201, body))
      | Raised e \<Rightarrow>
          (case str_of_request_exception e of
             Some m \<Rightarrow> ([HttpCall req], Inr (False, PDict [(''error'', PStr m)]))
           | None \<Rightarrow> ([HttpCall req], Inl e)))"

subsection \<open>\<^verbatim>\<open>fetch_saved_graphs\<close> (lines 72-82)\<close>

definition saved_graphs_request :: "string \<Rightarrow> request" where
  "saved_graphs_request user_id =
     Request ''GET'' (API_BASE_URL @ ''/playground/saved/'' @ user_id) (Some 10) None"

definition fetch_saved_graphs :: "backend \<Rightarrow> string \<Rightarrow> pyval run" where
  "fetch_saved_graphs http user_id =
     (let req = saved_graphs_request user_id in
      case http req of
        Response code body \<Rightarrow>
          if code = 200 then ([HttpCall req], py_get body ''saved_graphs'' (PList []))
          else ([HttpCall req], Inr (PList []))
      | Raised e \<Rightarrow>
          (case str_of_request_exception e of
             Some m \<Rightarrow> ([HttpCall req], Inr (PList []))
           | None \<Rightarrow> ([HttpCall req], Inl e)))"

subsection \<open>\<^verbatim>\<open>load_graph_from_backend\<close> (lines 84-93)\<close>

definition graph_request :: "string \<Rightarrow> request" where
  "graph_request graph_id =
     Request ''GET'' (API_BASE_URL @ ''/playground/graph/'' @ graph_id) (Some 10) None"

definition load_graph_from_backend :: "backend \<Rightarrow> string \<Rightarrow> pyval run" where
  "load_graph_from_backend http graph_id =
     (let req = graph_request graph_id in
      case http req of
        Response code body \<Rightarrow>
          if code = 200 then ([HttpCall req], Inr body) else ([HttpCall req], Inr PNone)
      | Raised e \<Rightarrow>
          (case str_of_request_exception e of
             Some m \<Rightarrow> ([HttpCall req], Inr PNone)
           | None \<Rightarrow> ([HttpCall req], Inl e)))"

subsection \<open>\<^verbatim>\<open>fetch_preset_options\<close> (lines 95-104)\<close>

definition presets_request :: request where
  "presets_request = Request ''GET'' (API_BASE_URL @ ''/playground/presets'') (Some 10) None"

definition fetch_preset_options :: "backend \<Rightarrow> pyval run" where
  "fetch_preset_options http =
     (case http presets_request of
        Response code body \<Rightarrow>
          if code = 200 then ([HttpCall presets_request], Inr body)
          else ([HttpCall presets_request], Inr PNone)
      | Raised e \<Rightarrow>
          (case str_of_request_exception e of
             Some m \<Rightarrow> ([HttpCall presets_request], Inr PNone)
           | None \<Rightarrow> ([HttpCall presets_request], Inl e)))"

subsection \<open>\<^verbatim>\<open>generate_real_predictions\<close> (lines 106-133)\<close>

definition predict_request :: "pydict \<Rightarrow> string \<Rightarrow> real \<Rightarrow> real \<Rightarrow> int \<Rightarrow> request" where
  "predict_request fvalues x_axis xmin xmax nsteps =
     Request ''POST'' (API_BASE_URL @ ''/models/playground/predict'') (Some 10)
       (Some (PDict
          ([(''XAxis'', PStr x_axis), (''XMin'', PFloat xmin), (''XMax'', PFloat xmax),
            (''XStep'', PInt nsteps)] @ fvalues)))"

definition generate_real_predictions ::
  "backend \<Rightarrow> pydict \<Rightarrow> string \<Rightarrow> real \<Rightarrow> real \<Rightarrow> int \<Rightarrow> (pyval \<times> pyval) run"
where
  "generate_real_predictions http fvalues x_axis xmin xmax nsteps =
     (let req = predict_request fvalues x_axis xmin xmax nsteps in
      case http req of
        Response code body \<Rightarrow>
          if code = 200 then
            (case py_get body ''x_values'' (PList []) of
               Inl e \<Rightarrow> ([HttpCall req], Inl e)
             | Inr xs \<Rightarrow>
                 (case py_get body ''predictions'' (PList []) of
                    Inl e \<Rightarrow> ([HttpCall req], Inl e)
                  | Inr ys \<Rightarrow> ([HttpCall req], Inr (xs, ys))))
          else
            ([HttpCall req, UiError (''Failed to generate predictions: '' @ str_nat code)],
             Inr (PNone, PNone))
      | Raised e \<Rightarrow>
          (case str_of_request_exception e of
             Some m \<Rightarrow>
               ([HttpCall req, UiError (''Error connecting to backend: '' @ m)],
                Inr (PNone, PNone))
           | None \<Rightarrow> ([HttpCall req], Inl e)))"

subsection \<open>The graph named by \<^verbatim>\<open>loaded_graph_id\<close> (lines 173-176)\<close>

text \<open>
  The call is written in the page itself: \<^verbatim>\<open>requests.get(url).json()\<close>, with no
  \<^verbatim>\<open>timeout=\<close> and outside any \<^verbatim>\<open>try\<close>. The answer is stored whatever its status and
  whatever it is.
\<close>

definition inline_graph_request :: "string \<Rightarrow> request" where
  "inline_graph_request graph_id =
     Request ''GET'' (API_BASE_URL @ ''/playground/graph/'' @ graph_id) None None"

definition load_graph_by_id :: "backend \<Rightarrow> session \<Rightarrow> session run" where
  "load_graph_by_id http st =
     (case loaded_graph_id st of
        None \<Rightarrow> ([], Inr st)
      | Some graph_id \<Rightarrow>
          if graph_id = [] then ([], Inr st)
          else
            (let req = inline_graph_request graph_id in
             case http req of
               Raised e \<Rightarrow> ([HttpCall req], Inl e)
             | Response code body \<Rightarrow>
                 ([HttpCall req], Inr (st\<lparr>loaded_graph := Some body\<rparr>))))"

subsection \<open>The standard deviations (lines 534-537)\<close>

text \<open>\<^verbatim>\<open>v[0]\<close>.\<close>

fun py_first :: "pyval \<Rightarrow> error + pyval" where
  "py_first (PList []) = Inl IndexError"
| "py_first (PList (x # xs)) = Inr x"
| "py_first (PStr []) = Inl IndexError"
| "py_first (PStr (c # cs)) = Inr (PStr [c])"
| "py_first (PDict d) = Inl (KeyError ''0'')"
| "py_first _ = Inl TypeError"

definition stds_request :: request where
  "stds_request = Request ''GET'' (API_BASE_URL @ ''/models/playground/stds'') None None"

text \<open>
  \<^verbatim>\<open>current_compared_value\<close> and \<^verbatim>\<open>current_std\<close>: two subscripts by
  \<^verbatim>\<open>FEATURE_MAPPING[compare_feature]\<close> around a call written in the page itself, with no
  \<^verbatim>\<open>timeout=\<close> and outside any \<^verbatim>\<open>try\<close>.
\<close>

definition compared_value_and_std :: "backend \<Rightarrow> controls \<Rightarrow> (pyval \<times> pyval) run" where
  "compared_value_and_std http c =
     (case map_of FEATURE_MAPPING (compare_feature c) of
        None \<Rightarrow> ([], Inl (KeyError (compare_feature c)))
      | Some key \<Rightarrow>
          (case dict_item (feature_values c) key of
             Inl e \<Rightarrow> ([], Inl e)
           | Inr current_compared_value \<Rightarrow>
               (case http stds_request of
                  Raised e \<Rightarrow> ([HttpCall stds_request], Inl e)
                | Response code body \<Rightarrow>
                    (case py_first body of
                       Inl e \<Rightarrow> ([HttpCall stds_request], Inl e)
                     | Inr stds \<Rightarrow>
                         (case py_item stds key of
                            Inl e \<Rightarrow> ([HttpCall stds_request], Inl e)
                          | Inr current_std \<Rightarrow>
                              ([HttpCall stds_request],
                               Inr (current_compared_value, current_std)))))))"

section \<open>The buttons of the graph column\<close>

subsection \<open>Generate Graph (lines 552-604)\<close>

text \<open>
  The result of a handler: the events, the session state it leaves, and the exception
  that ended the run, if one did.
\<close>

definition backend_feature_name :: "controls \<Rightarrow> string" where
  "backend_feature_name c =
     (case map_of FEATURE_MAPPING (compare_feature c) of
        None \<Rightarrow> compare_feature c
      | Some b \<Rightarrow> b)"

definition generate_graph_button ::
  "backend \<Rightarrow> session \<Rightarrow> controls \<Rightarrow> event list \<times> session \<times> error option"
where
  "generate_graph_button http st c =
     (if x_max c \<le> x_min c then
        ([UiError ''Min value must be less than Max value!''], st, None)
      else if steps c < 5 then
        ([UiError ''Steps must be at least 5!''], st, None)
      else
        (case generate_real_predictions http (feature_values c) (backend_feature_name c)
                (x_min c) (x_max c) (steps c) of
           (evs, Inl e) \<Rightarrow> (evs, st, Some e)
         | (evs, Inr (xs, ys)) \<Rightarrow>
             if xs \<noteq> PNone \<and> ys \<noteq> PNone then
               (evs @ [UiSuccess ''Graph generated successfully!'', Rerun],
                st\<lparr>graph_data :=
                     Some \<lparr>x_values = xs, y_values = ys,
                           feature_name = PStr (compare_feature c)\<rparr>\<rparr>,
                None)
             else
               (evs @ [UiError ''Failed to generate predictions. Please try again.''],
                st, None)))"

subsection \<open>The Steps input (line 547) and the button together\<close>



subsection \<open>Save Graph (lines 607-651)\<close>

text \<open>
  \<open>clicked\<close> is the value of \<^verbatim>\<open>st.button\<close>, \<open>graph_name\<close> the text input. The block runs
  only while a graph is shown.
\<close>

definition save_graph_button ::
  "backend \<Rightarrow> session \<Rightarrow> string \<Rightarrow> controls \<Rightarrow> bool \<Rightarrow> string
     \<Rightarrow> event list \<times> session \<times> error option"
where
  "save_graph_button http st user_id c clicked graph_name =
     (if graph_data st \<noteq> None then
        (if clicked \<and> graph_name \<noteq> [] then
           (case save_graph_to_backend http user_id graph_name (backend_feature_name c)
                   (x_min c) (x_max c) (steps c) (feature_values c) of
              (evs, Inl e) \<Rightarrow> (evs, st, Some e)
            | (evs, Inr (success, response)) \<Rightarrow>
                if success then
                  (evs @ [UiSuccess (''Graph '' @ [CHR 0x27] @ graph_name @ [CHR 0x27]
                                       @ '' saved successfully!''),
                          CacheClear, Rerun], st, None)
                else
                  (case py_get response ''error'' (PStr ''Unknown error'') of
                     Inl e \<Rightarrow> (evs, st, Some e)
                   | Inr m \<Rightarrow> (evs @ [UiErrorValue ''Failed to save graph: '' m], st, None)))
         else ([], st, None))
      else ([], st, None))"

subsection \<open>Clear Graph (lines 654-658)\<close>

definition clear_graph_button :: "session \<Rightarrow> event list \<times> session \<times> error option" where
  "clear_graph_button st = ([Rerun], st\<lparr>graph_data := None, loaded_graph := None\<rparr>, None)"

section \<open>Example inputs\<close>

definition backend_ok :: backend where
  "backend_ok req =
     Response 200
       (PDict [(''x_values'', PList [PFloat 0, PFloat 5, PFloat 10]),
               (''predictions'', PList [PFloat (3 / 10), PFloat (31 / 100), PFloat (32 / 100)])])"

definition backend_500 :: backend where
  "backend_500 req = Response 500 (PDict [(''error'', PStr ''Internal Server Error'')])"

definition shown_series :: graph_series where
  "shown_series =
     \<lparr>x_values = PList [PFloat 1, PFloat 2], y_values = PList [PFloat (1 / 4), PFloat (1 / 3)],
      feature_name = PStr ''Health''\<rparr>"

definition session_with_graph :: session where
  "session_with_graph = empty_session\<lparr>graph_data := Some shown_series\<rparr>"

definition mena_entry :: pydict where
  "mena_entry =
     [(''Reference_area'', PStr ''Egypt''), (''Time_period'', PInt 2020),
      (''Region'', PStr ''Middle East and North Africa''),
      (''Population'', PStr ''5000000''),
      (''GDP_per_capita'', PStr ''12000''),
      (''Health'', PFloat (3 / 100)),
      (''Inflation'', PInt 5)]"

definition mena_values :: pydict where
  "mena_values =
     [(''Population'', PInt 5000000),
      (''GDP_per_capita'', PFloat 12000),
      (''Trade_union_density'', PFloat 33),
      (''Unemployment_rate'', PFloat 8),
      (''Health'', PFloat (3 / 100)),
      (''Education'', PFloat (52 / 1000)),
      (''Housing'', PFloat (32 / 10000)),
      (''Community_development'', PFloat (19 / 10000)),
      (''Corporate_tax_rate'', PFloat 21),
      (''Inflation'', PFloat 5),
      (''IRLT'', PFloat (79 / 10)),
      (''Region_East_Asia_and_Pacific'', PInt 0),
      (''Region_Europe_and_Central_Asia'', PInt 0),
      (''Region_Latin_America_and_Caribbean'', PInt 0),
      (''Region_Middle_East_and_North_Africa'', PInt 1)]"

definition north_america_entry :: pydict where
  "north_america_entry =
     [(''Reference_area'', PStr ''Canada''), (''Time_period'', PInt 2020),
      (''Region'', PStr ''North America''), (''Population'', PInt 38000000)]"

definition north_america_values :: pydict where
  "north_america_values =
     [(''Population'', PInt 38000000),
      (''GDP_per_capita'', PFloat 41000),
      (''Trade_union_density'', PFloat 33),
      (''Unemployment_rate'', PFloat 8),
      (''Health'', PFloat (64 / 1000)),
      (''Education'', PFloat (52 / 1000)),
      (''Housing'', PFloat (32 / 10000)),
      (''Community_development'', PFloat (19 / 10000)),
      (''Corporate_tax_rate'', PFloat 21),
      (''Inflation'', PFloat (21 / 10)),
      (''IRLT'', PFloat (79 / 10)),
      (''Region_East_Asia_and_Pacific'', PInt 0),
      (''Region_Europe_and_Central_Asia'', PInt 0),
      (''Region_Latin_America_and_Caribbean'', PInt 0),
      (''Region_Middle_East_and_North_Africa'', PInt 0)]"

definition no_region_entry :: pydict where
  "no_region_entry =
     [(''Reference_area'', PStr ''Atlantis''), (''Time_period'', PInt 2020),
      (''Population'', PInt 1000)]"

definition sub_saharan_entry :: pydict where
  "sub_saharan_entry =
     [(''Reference_area'', PStr ''Kenya''), (''Time_period'', PInt 2020),
      (''Region'', PStr ''Sub-Saharan Africa'')]"

definition europe_entry :: pydict where
  "europe_entry =
     [(''Reference_area'', PStr ''France''), (''Time_period'', PInt 2020),
      (''Region'', PStr ''Europe and Central Asia'')]"

definition graph_without_features :: pydict where
  "graph_without_features =
     [(''name'', PStr ''My Graph''), (''x_axis'', PStr ''Health''), (''Population'', PInt 1000)]"

definition graph_with_features :: pydict where
  "graph_with_features =
     [(''name'', PStr ''My Graph''),
      (''features'', PDict [(''Population'', PInt 9000000), (''GDP_per_capita'', PInt 30000)])]"

definition small_preset :: pydict where
  "small_preset = [(''Population'', PInt 5000000), (''Health'', PFloat (1 / 10))]"

text \<open>What the empty preset entry yields: the hardcoded defaults of lines 323-333.\<close>

definition default_values :: pydict where
  "default_values =
     [(''Population'', PInt 22000000),
      (''GDP_per_capita'', PFloat 41000),
      (''Trade_union_density'', PFloat 33),
      (''Unemployment_rate'', PFloat 8),
      (''Health'', PFloat (64 / 1000)),
      (''Education'', PFloat (52 / 1000)),
      (''Housing'', PFloat (32 / 10000)),
      (''Community_development'', PFloat (19 / 10000)),
      (''Corporate_tax_rate'', PFloat 21),
      (''Inflation'', PFloat (21 / 10)),
      (''IRLT'', PFloat (79 / 10)),
      (''Region_East_Asia_and_Pacific'', PInt 0),
      (''Region_Europe_and_Central_Asia'', PInt 1),
      (''Region_Latin_America_and_Caribbean'', PInt 0),
      (''Region_Middle_East_and_North_Africa'', PInt 0)]"

definition five_features :: "pyval list" where
  "five_features = [PStr ''Alpha'', PStr ''Beta'', PStr ''Gamma'', PStr ''Delta'', PStr ''Omega'']"

section \<open>Conversions\<close>

lemma float_of_int_small [simp]: "\<bar>n\<bar> \<le> 2 ^ 53 \<Longrightarrow> float_of_int n = Inr (of_int n)"
  by (simp add: float_of_int_def Let_def nat_le_iff)

section \<open>The feature selector after a failed feature fetch\<close>

lemma fetch_available_features_failed:
  assumes "fetch_failed (http features_request)"
  shows "snd (fetch_available_features http) = Inr PNone"
proof (cases "http features_request")
  case (Raised e)
  with assms obtain m where "e = RequestException m"
    by (cases e) auto
  with Raised show ?thesis
    by (simp add: fetch_available_features_def)
next
  case (Response code body)
  with assms show ?thesis
    by (simp add: fetch_available_features_def)
qed

lemma load_available_features_fallback:
  assumes "fetch_failed (http features_request)" and "available_features st = None"
  shows "snd (load_available_features http st) =
           Inr (st\<lparr>available_features := Some fallback_features\<rparr>)"
proof -
  obtain evs where "fetch_available_features http = (evs, Inr PNone)"
    using fetch_available_features_failed [of http] assms(1)
    by (cases "fetch_available_features http") auto
  with assms(2) show ?thesis
    by (simp add: load_available_features_def)
qed

lemma drop_last4_fallback:
  "drop_last4 fallback_features =
     [PStr ''Population'', PStr ''GDP per capita'', PStr ''Trade union density'',
      PStr ''Unemployment rate'', PStr ''Health'', PStr ''Education'', PStr ''Housing'']"
  by (simp add: drop_last4_def fallback_features_def FEATURE_MAPPING_def)

text \<open>
  Claim C10. The x-axis selector offers the stored feature list without its last four
  entries, whatever they are: for a stored list that is not empty the options are its
  first \<open>length - 4\<close> entries, and when it has at least four entries the options followed
  by its last four entries give the list back. With no list or an empty one the selector
  falls back to the names of \<open>FEATURE_MAPPING\<close>. When the feature fetch fails (the
  request raises a \<^verbatim>\<open>RequestException\<close> or answers with a status other than 200) and no
  list is in the session yet, the page stores the eleven names of \<open>FEATURE_MAPPING\<close>, and
  the selector then offers exactly the first seven: Population, GDP per capita, Trade
  union density, Unemployment rate, Health, Education, Housing. Community development,
  Productivity, Inflation and IRLT are cut off by position.
\<close>

theorem selector_drops_last_four:
  "(available_features st = Some fs \<and> fs \<noteq> [] \<longrightarrow>
      compare_feature_options st = take (length fs - 4) fs
    \<and> length (compare_feature_options st) = length fs - 4
    \<and> (4 \<le> length fs \<longrightarrow>
          compare_feature_options st @ drop (length fs - 4) fs = fs
        \<and> length (drop (length fs - 4) fs) = 4))
   \<and> (available_features st = None \<or> available_features st = Some [] \<longrightarrow>
        compare_feature_options st = take 7 (map (\<lambda>kv. PStr (fst kv)) FEATURE_MAPPING))
   \<and> (fetch_failed (http features_request) \<and> available_features st = None \<longrightarrow>
        (\<exists>st'. snd (load_available_features http st) = Inr st'
           \<and> available_features st' = Some (map (\<lambda>kv. PStr (fst kv)) FEATURE_MAPPING)
           \<and> length (map fst FEATURE_MAPPING) = 11
           \<and> compare_feature_options st' =
               [PStr ''Population'', PStr ''GDP per capita'', PStr ''Trade union density'',
                PStr ''Unemployment rate'', PStr ''Health'', PStr ''Education'',
                PStr ''Housing'']
           \<and> compare_feature_options st' = take 7 (map (\<lambda>kv. PStr (fst kv)) FEATURE_MAPPING)))"
  (is "(?some \<longrightarrow> ?dropped) \<and> (?none \<longrightarrow> ?fallback) \<and> (?failed \<longrightarrow> ?seven)")
proof (intro conjI)
  show "?some \<longrightarrow> ?dropped"
    by (auto simp: compare_feature_options_def drop_last4_def)
  have 5: "take 7 (map (\<lambda>kv. PStr (fst kv)) FEATURE_MAPPING) = drop_last4 fallback_features"
    by (simp add: drop_last4_def fallback_features_def FEATURE_MAPPING_def)
  show "?none \<longrightarrow> ?fallback"
    using 5 by (auto simp: compare_feature_options_def)
  show "?failed \<longrightarrow> ?seven"
  proof
    assume f: ?failed
    let ?st = "st\<lparr>available_features := Some fallback_features\<rparr>"
    have 1: "snd (load_available_features http st) = Inr ?st"
      using load_available_features_fallback [of http st] f by simp
    have 2: "available_features ?st = Some (map (\<lambda>kv. PStr (fst kv)) FEATURE_MAPPING)"
      by (simp add: fallback_features_def)
    have 3: "length (map fst FEATURE_MAPPING) = 11"
      by (simp add: FEATURE_MAPPING_def)
    have ne: "fallback_features \<noteq> []"
      by (simp add: fallback_features_def FEATURE_MAPPING_def)
    have 4: "compare_feature_options ?st = drop_last4 fallback_features"
      using ne by (simp add: compare_feature_options_def)
    show ?seven
      using 1 2 3 4 5 drop_last4_fallback by simp
  qed
qed

theorem selector_drops_last_four_witness:
  "available_features (empty_session\<lparr>available_features := Some five_features\<rparr>)
     = Some five_features
   \<and> five_features \<noteq> []
   \<and> compare_feature_options (empty_session\<lparr>available_features := Some five_features\<rparr>)
       = [PStr ''Alpha'']
   \<and> compare_feature_options (empty_session\<lparr>available_features := Some []\<rparr>)
       = take 7 (map (\<lambda>kv. PStr (fst kv)) FEATURE_MAPPING)
   \<and> fetch_failed (backend_down features_request)
   \<and> available_features empty_session = None
   \<and> (\<exists>st'. snd (load_available_features backend_down empty_session) = Inr st'
        \<and> compare_feature_options st' =
            [PStr ''Population'', PStr ''GDP per capita'', PStr ''Trade union density'',
             PStr ''Unemployment rate'', PStr ''Health'', PStr ''Education'',
             PStr ''Housing''])"
proof -
  let ?s5 = "empty_session\<lparr>available_features := Some five_features\<rparr>"
  let ?s0 = "empty_session\<lparr>available_features := Some []\<rparr>"
  have h1: "available_features ?s5 = Some five_features \<and> five_features \<noteq> []"
    by (simp add: five_features_def)
  have h2: "available_features ?s0 = None \<or> available_features ?s0 = Some []"
    by simp
  have h3: "fetch_failed (backend_down features_request)
              \<and> available_features empty_session = None"
    by (simp add: backend_down_def empty_session_def)
  note t5 = selector_drops_last_four [of ?s5 five_features backend_down, THEN conjunct1, THEN mp, OF h1]
  note t0 = selector_drops_last_four [of ?s0 "[]" backend_down, THEN conjunct2, THEN conjunct1,
      THEN mp, OF h2]
  note t3 = selector_drops_last_four [of empty_session "[]" backend_down,
      THEN conjunct2, THEN conjunct2, THEN mp, OF h3]
  from t5 have a: "compare_feature_options ?s5 = [PStr ''Alpha'']"
    by (simp add: five_features_def)
  from t3 have c: "\<exists>st'. snd (load_available_features backend_down empty_session) = Inr st'
        \<and> compare_feature_options st' =
            [PStr ''Population'', PStr ''GDP per capita'', PStr ''Trade union density'',
             PStr ''Unemployment rate'', PStr ''Health'', PStr ''Education'',
             PStr ''Housing'']"
    by blast
  from h1 h3 a t0 c show ?thesis by simp
qed

section \<open>Regions and presets\<close>

lemma map_regions_hashable:
  "hashable r \<Longrightarrow> map_regions r =
     Inr (if r = PStr ''East Asia and Pacific'' then 1 else 0,
          if r = PStr ''Europe and Central Asia'' then 1 else 0,
          if r = PStr ''Latin America and Caribbean'' then 1 else 0,
          if r = PStr ''Middle East and North Africa'' then 1 else 0)"
  by (simp add: map_regions_def)

lemma map_regions_unhashable: "\<not> hashable r \<Longrightarrow> map_regions r = Inl TypeError"
  by (simp add: map_regions_def)

lemma coerce_fields_keys:
  "coerce_fields pf entry fs = Inr out \<Longrightarrow> map fst out = map fst fs"
  by (induction fs arbitrary: out) (auto split: sum.splits)

lemma coerce_fields_lookup:
  "coerce_fields pf entry fs = Inr out \<Longrightarrow> distinct (map fst fs) \<Longrightarrow> (k, d, b) \<in> set fs \<Longrightarrow>
     \<exists>v. map_of out k = Some v \<and> coerce pf b (dict_get entry k d) = Inr v"
proof (induction fs arbitrary: out)
  case Nil
  then show ?case by simp
next
  case (Cons f fs)
  obtain k' d' b' where f: "f = (k', d', b')" by (cases f) auto
  from Cons.prems(1) f obtain v rest where
    v: "coerce pf b' (dict_get entry k' d') = Inr v" and
    rest: "coerce_fields pf entry fs = Inr rest" and
    out: "out = (k', v) # rest"
    by (auto split: sum.splits)
  show ?case
  proof (cases "(k, d, b) = f")
    case True
    with f v out show ?thesis by auto
  next
    case False
    with Cons.prems(3) have mem: "(k, d, b) \<in> set fs" by auto
    from Cons.prems(2) have dist: "distinct (map fst fs)" by simp
    from Cons.prems(2) f mem have "k \<noteq> k'" by force
    with Cons.IH [OF rest dist mem] out show ?thesis by auto
  qed
qed


lemma apply_preset_Inr:
  assumes "apply_preset pf entry = Inr pv"
  shows "\<exists>scalars.
           coerce_fields pf entry preset_fields = Inr scalars
         \<and> hashable (dict_get entry ''Region'' (PStr ''Europe and Central Asia''))
         \<and> pv = scalars @
             map (\<lambda>kn. (fst kn, PInt (if dict_get entry ''Region'' (PStr ''Europe and Central Asia'')
                                          = PStr (snd kn) then 1 else 0)))
               (zip region_keys region_options)"
proof -
  let ?r = "dict_get entry ''Region'' (PStr ''Europe and Central Asia'')"
  have h: "hashable ?r"
  proof (rule ccontr)
    assume "\<not> hashable ?r"
    then have "map_regions ?r = Inl TypeError" by (rule map_regions_unhashable)
    with assms show False by (simp add: apply_preset_def)
  qed
  from assms show ?thesis
    unfolding apply_preset_def Let_def map_regions_hashable [OF h]
    using h by (auto simp: region_keys_def region_options_def split: sum.splits)
qed

lemma preset_fields_keys:
  "map fst preset_fields =
     [''Population'', ''GDP_per_capita'', ''Trade_union_density'', ''Unemployment_rate'',
      ''Health'', ''Education'', ''Housing'', ''Community_development'',
      ''Corporate_tax_rate'', ''Inflation'', ''IRLT'']"
  by (simp add: preset_fields_def)

lemma preset_fields_distinct: "distinct (map fst preset_fields)"
  unfolding preset_fields_keys by simp

lemma region_keys_not_scalar: "k \<in> set region_keys \<Longrightarrow> k \<notin> set (map fst preset_fields)"
  unfolding preset_fields_keys by (auto simp: region_keys_def)

lemma apply_preset_regions:
  assumes "apply_preset pf entry = Inr pv"
  shows "region_indicators pv =
           map (\<lambda>name. Some (PInt (if dict_get entry ''Region'' (PStr ''Europe and Central Asia'')
                                       = PStr name then 1 else 0))) region_options"
proof -
  from apply_preset_Inr [OF assms] obtain scalars where
    sc: "coerce_fields pf entry preset_fields = Inr scalars" and
    pv: "pv = scalars @
             map (\<lambda>kn. (fst kn, PInt (if dict_get entry ''Region'' (PStr ''Europe and Central Asia'')
                                          = PStr (snd kn) then 1 else 0)))
               (zip region_keys region_options)"
    by blast
  have keys: "map fst scalars = map fst preset_fields"
    by (rule coerce_fields_keys [OF sc])
  have none: "map_of scalars k = None" if "k \<in> set region_keys" for k
  proof -
    from region_keys_not_scalar [OF that] keys have "k \<notin> fst ` set scalars"
      by (metis set_map)
    then show ?thesis by (simp add: map_of_eq_None_iff)
  qed
  have look: "map_of pv k =
      map_of (map (\<lambda>kn. (fst kn, PInt (if dict_get entry ''Region'' (PStr ''Europe and Central Asia'')
                                          = PStr (snd kn) then 1 else 0)))
               (zip region_keys region_options)) k" if "k \<in> set region_keys" for k
    unfolding pv using none [OF that] by (simp add: map_add_def)
  show ?thesis
    unfolding region_indicators_def
    by (simp add: region_keys_def look) (simp add: region_keys_def region_options_def)
qed

lemma apply_preset_scalar:
  assumes "apply_preset pf entry = Inr pv" and "(k, d, b) \<in> set preset_fields"
  shows "\<exists>v. map_of pv k = Some v \<and> coerce pf b (dict_get entry k d) = Inr v"
proof -
  from apply_preset_Inr [OF assms(1)] obtain scalars regs where
    sc: "coerce_fields pf entry preset_fields = Inr scalars" and pv: "pv = scalars @ regs"
    by blast
  from coerce_fields_lookup [OF sc preset_fields_distinct assms(2)] obtain v where
    "map_of scalars k = Some v" and "coerce pf b (dict_get entry k d) = Inr v" by blast
  then show ?thesis unfolding pv by (simp add: map_add_def)
qed


lemmas int_of_str_eval = int_of_str_def strip_def is_space_def is_digit_def digit_val_def

lemma apply_preset_mena: "apply_preset parse_whole mena_entry = Inr mena_values"
  by (simp add: apply_preset_def mena_entry_def mena_values_def map_regions_def
      preset_fields_def dict_get_def coerce_def parse_whole_def int_of_str_eval)

lemma preset_fields_as_int: "(k, d, b) \<in> set preset_fields \<Longrightarrow> b = (k = ''Population'')"
  by (auto simp: preset_fields_def)

lemma preset_fields_default_coerced: "(k, d, b) \<in> set preset_fields \<Longrightarrow> coerce pf b d = Inr d"
  by (auto simp: preset_fields_def coerce_def)

lemma int_of_str_5000000: "int_of_str ''5000000'' = Inr 5000000"
  by (simp add: int_of_str_eval)

lemma coerce_fields_succeeds_iff:
  "(\<exists>out. coerce_fields pf entry fs = Inr out) \<longleftrightarrow>
     (\<forall>(k, d, b) \<in> set fs. \<exists>v. coerce pf b (dict_get entry k d) = Inr v)"
proof (induction fs)
  case Nil
  show ?case by simp
next
  case (Cons f fs)
  obtain k d b where f: "f = (k, d, b)" by (cases f) auto
  show ?case
  proof (cases "coerce pf b (dict_get entry k d)")
    case (Inl e)
    with f show ?thesis by auto
  next
    case (Inr v)
    with f Cons.IH show ?thesis
      by (cases "coerce_fields pf entry fs") auto
  qed
qed

lemma apply_preset_succeeds_iff:
  "(\<exists>pv. apply_preset pf entry = Inr pv) \<longleftrightarrow>
     hashable (dict_get entry ''Region'' (PStr ''Europe and Central Asia''))
   \<and> (\<forall>(k, d, b) \<in> set preset_fields. \<exists>v. coerce pf b (dict_get entry k d) = Inr v)"
proof (cases "hashable (dict_get entry ''Region'' (PStr ''Europe and Central Asia''))")
  case False
  then show ?thesis
    by (simp add: apply_preset_def map_regions_unhashable)
next
  case True
  have "(\<exists>pv. apply_preset pf entry = Inr pv)
          \<longleftrightarrow> (\<exists>out. coerce_fields pf entry preset_fields = Inr out)"
    by (cases "coerce_fields pf entry preset_fields")
       (simp_all add: apply_preset_def Let_def map_regions_hashable [OF True])
  with True show ?thesis
    by (simp add: coerce_fields_succeeds_iff)
qed

lemma coerce_int_iff: "(\<exists>v. coerce pf True x = Inr v) \<longleftrightarrow> (\<exists>n. py_int x = Inr n)"
  by (cases "py_int x") (simp_all add: coerce_def)

lemma coerce_float_iff: "(\<exists>v. coerce pf False x = Inr v) \<longleftrightarrow> (\<exists>r. py_float pf x = Inr r)"
  by (cases "py_float pf x") (simp_all add: coerce_def)

lemma preset_fields_split:
  "(\<forall>(k, d, b) \<in> set preset_fields. \<exists>v. coerce pf b (dict_get entry k d) = Inr v) \<longleftrightarrow>
     (\<exists>n. py_int (dict_get entry ''Population'' (PInt 22000000)) = Inr n)
   \<and> (\<forall>(k, d, b) \<in> set preset_fields. k \<noteq> ''Population'' \<longrightarrow>
          (\<exists>r. py_float pf (dict_get entry k d) = Inr r))"
  by (simp add: preset_fields_def coerce_int_iff coerce_float_iff)

lemma apply_preset_empty: "apply_preset pf [] = Inr default_values"
  by (simp add: apply_preset_def map_regions_def preset_fields_def dict_get_def coerce_def
      default_values_def)

lemma apply_preset_keys:
  assumes "apply_preset pf entry = Inr pv"
  shows "map fst pv = map fst preset_fields @ region_keys"
proof -
  from apply_preset_Inr [OF assms] obtain scalars where
    sc: "coerce_fields pf entry preset_fields = Inr scalars" and
    pv: "pv = scalars @
             map (\<lambda>kn. (fst kn, PInt (if dict_get entry ''Region'' (PStr ''Europe and Central Asia'')
                                          = PStr (snd kn) then 1 else 0)))
               (zip region_keys region_options)"
    by blast
  have "map fst (map (\<lambda>kn. (fst kn, PInt (if dict_get entry ''Region''
            (PStr ''Europe and Central Asia'') = PStr (snd kn) then 1 else 0)))
               (zip region_keys region_options)) = region_keys"
    by (simp add: region_keys_def region_options_def)
  with coerce_fields_keys [OF sc] pv show ?thesis by simp
qed

lemma apply_preset_population:
  assumes "apply_preset pf entry = Inr pv"
  shows "\<exists>n. py_int (dict_get entry ''Population'' (PInt 22000000)) = Inr n
             \<and> map_of pv ''Population'' = Some (PInt n)"
proof -
  have pop: "(''Population'', PInt 22000000, True) \<in> set preset_fields"
    by (simp add: preset_fields_def)
  from apply_preset_scalar [OF assms pop] show ?thesis
    by (auto simp: coerce_def split: sum.splits)
qed

lemma apply_preset_float:
  assumes "apply_preset pf entry = Inr pv" and "(k, d, b) \<in> set preset_fields"
    and "k \<noteq> ''Population''"
  shows "\<exists>r. py_float pf (dict_get entry k d) = Inr r \<and> map_of pv k = Some (PFloat r)"
proof -
  from preset_fields_as_int [OF assms(2)] assms(3) have "b = False" by simp
  with apply_preset_scalar [OF assms(1,2)] show ?thesis
    by (auto simp: coerce_def split: sum.splits)
qed

text \<open>
  Claim C7. Applying a preset entry yields a feature dictionary exactly when the Region
  can be a dictionary key, \<^verbatim>\<open>int\<close> accepts the Population (or its default) and \<^verbatim>\<open>float\<close>
  accepts each of the ten other scalars (or its default); the empty entry yields the
  hardcoded defaults with the region "Europe and Central Asia". The dictionary it yields
  has the fifteen keys in the order of the source. Its Population is the integer that
  \<^verbatim>\<open>int\<close> makes of the entry's Population: an integer stays, a float is cut towards
  zero, the text "5000000" becomes 5000000. Each other scalar is the float that \<^verbatim>\<open>float\<close>
  makes of the entry's value: a float stays, an integer up to \<open>2^53\<close> in size becomes the
  float of the same value, a text becomes what \<^verbatim>\<open>float\<close> reads from it. A field the
  entry lacks gets its hardcoded default (Population 22,000,000). An entry whose Region is
  "Middle East and North Africa" gets the indicators 0, 0, 0, 1.
\<close>

theorem apply_preset_coerces_and_defaults:
  "((\<exists>pv'. apply_preset pf entry = Inr pv') \<longleftrightarrow>
       hashable (dict_get entry ''Region'' (PStr ''Europe and Central Asia''))
     \<and> (\<exists>n. py_int (dict_get entry ''Population'' (PInt 22000000)) = Inr n)
     \<and> (\<forall>(k, d, b) \<in> set preset_fields. k \<noteq> ''Population'' \<longrightarrow>
            (\<exists>r. py_float pf (dict_get entry k d) = Inr r)))
   \<and> apply_preset pf [] = Inr default_values
   \<and> (apply_preset pf entry = Inr pv \<longrightarrow>
        map fst pv =
          [''Population'', ''GDP_per_capita'', ''Trade_union_density'', ''Unemployment_rate'',
           ''Health'', ''Education'', ''Housing'', ''Community_development'',
           ''Corporate_tax_rate'', ''Inflation'', ''IRLT'',
           ''Region_East_Asia_and_Pacific'', ''Region_Europe_and_Central_Asia'',
           ''Region_Latin_America_and_Caribbean'', ''Region_Middle_East_and_North_Africa'']
      \<and> (\<exists>n. py_int (dict_get entry ''Population'' (PInt 22000000)) = Inr n
              \<and> map_of pv ''Population'' = Some (PInt n))
      \<and> (\<forall>n. map_of entry ''Population'' = Some (PInt n) \<longrightarrow>
              map_of pv ''Population'' = Some (PInt n))
      \<and> (\<forall>r. map_of entry ''Population'' = Some (PFloat r) \<longrightarrow>
              map_of pv ''Population'' = Some (PInt (if 0 \<le> r then \<lfloor>r\<rfloor> else \<lceil>r\<rceil>)))
      \<and> (map_of entry ''Population'' = Some (PStr ''5000000'') \<longrightarrow>
              map_of pv ''Population'' = Some (PInt 5000000))
      \<and> (\<forall>(k, d, b) \<in> set preset_fields. k \<noteq> ''Population'' \<longrightarrow>
              (\<exists>r. py_float pf (dict_get entry k d) = Inr r \<and> map_of pv k = Some (PFloat r))
            \<and> (\<forall>r. map_of entry k = Some (PFloat r) \<longrightarrow> map_of pv k = Some (PFloat r))
            \<and> (\<forall>n. map_of entry k = Some (PInt n) \<and> \<bar>n\<bar> \<le> 2 ^ 53 \<longrightarrow>
                   map_of pv k = Some (PFloat (of_int n)))
            \<and> (\<forall>s r. map_of entry k = Some (PStr s) \<and> pf s = Some r \<longrightarrow>
                   map_of pv k = Some (PFloat r)))
      \<and> (\<forall>(k, d, b) \<in> set preset_fields. map_of entry k = None \<longrightarrow> map_of pv k = Some d)
      \<and> (map_of entry ''Population'' = None \<longrightarrow>
              map_of pv ''Population'' = Some (PInt 22000000))
      \<and> (map_of entry ''Region'' = Some (PStr ''Middle East and North Africa'') \<longrightarrow>
              region_indicators pv =
                [Some (PInt 0), Some (PInt 0), Some (PInt 0), Some (PInt 1)]))"
  (is "?yields \<and> ?empty \<and> (?a \<longrightarrow> ?keys \<and> ?pop \<and> ?pint \<and> ?pfloat \<and> ?ptext \<and> ?floats
                                   \<and> ?missing \<and> ?popdefault \<and> ?region)"
   is "_ \<and> _ \<and> (_ \<longrightarrow> ?body)")
proof -
  have y: ?yields
    by (simp only: apply_preset_succeeds_iff preset_fields_split)
  have e: ?empty
    by (rule apply_preset_empty)
  have b: ?body if a: ?a
  proof (intro conjI)
    note p = apply_preset_population [OF a]
    show ?keys
      using apply_preset_keys [OF a] by (simp add: preset_fields_keys region_keys_def)
    show ?pop by (rule p)
    from p show ?pint by (auto simp: dict_get_def)
    from p show ?pfloat by (auto simp: dict_get_def)
    from p show ?ptext by (auto simp: dict_get_def int_of_str_5000000)
    from p show ?popdefault by (auto simp: dict_get_def)
    show ?region
      using apply_preset_regions [OF a] by (simp add: dict_get_def region_options_def)
    show ?floats
    proof (intro ballI, clarify, intro conjI allI impI)
      fix k d b assume mem: "(k, d, b) \<in> set preset_fields" and ne: "k \<noteq> ''Population''"
      note f = apply_preset_float [OF a mem ne]
      show "\<exists>r. py_float pf (dict_get entry k d) = Inr r \<and> map_of pv k = Some (PFloat r)"
        by (rule f)
      show "map_of pv k = Some (PFloat r)" if "map_of entry k = Some (PFloat r)" for r
        using f that by (auto simp: dict_get_def)
      show "map_of pv k = Some (PFloat (of_int n))"
        if "map_of entry k = Some (PInt n) \<and> \<bar>n\<bar> \<le> 2 ^ 53" for n
        using f that by (auto simp: dict_get_def)
      show "map_of pv k = Some (PFloat r)"
        if "map_of entry k = Some (PStr s) \<and> pf s = Some r" for s r
        using f that by (auto simp: dict_get_def)
    qed
    show ?missing
    proof (intro ballI, clarify)
      fix k d b assume mem: "(k, d, b) \<in> set preset_fields" and "map_of entry k = None"
      then have "dict_get entry k d = d" by (simp add: dict_get_def)
      with apply_preset_scalar [OF a mem] preset_fields_default_coerced [OF mem, of pf]
      show "map_of pv k = Some d" by auto
    qed
  qed
  show ?thesis
  proof (intro conjI)
    show ?yields by (rule y)
    show ?empty by (rule e)
    show "?a \<longrightarrow> ?body" using b by (rule impI)
  qed
qed

theorem apply_preset_coerces_and_defaults_witness:
  "(\<exists>pv'. apply_preset parse_whole mena_entry = Inr pv')
   \<and> apply_preset parse_whole mena_entry = Inr mena_values
   \<and> map_of mena_values ''Population'' = Some (PInt 5000000)
   \<and> map_of mena_values ''GDP_per_capita'' = Some (PFloat 12000)
   \<and> map_of mena_values ''Health'' = Some (PFloat (3 / 100))
   \<and> map_of mena_values ''Inflation'' = Some (PFloat 5)
   \<and> map_of mena_values ''Trade_union_density'' = Some (PFloat 33)
   \<and> region_indicators mena_values = [Some (PInt 0), Some (PInt 0), Some (PInt 0), Some (PInt 1)]"
proof -
  have h: "apply_preset parse_whole mena_entry = Inr mena_values"
    by (rule apply_preset_mena)
  note t = apply_preset_coerces_and_defaults [of parse_whole mena_entry mena_values]
  have e1: "map_of mena_entry ''Population'' = Some (PStr ''5000000'')"
    and e2: "map_of mena_entry ''Region'' = Some (PStr ''Middle East and North Africa'')"
    and e3: "map_of mena_entry ''Trade_union_density'' = None"
    and e4: "map_of mena_entry ''GDP_per_capita'' = Some (PStr ''12000'')"
    and e5: "map_of mena_entry ''Health'' = Some (PFloat (3 / 100))"
    and e6: "map_of mena_entry ''Inflation'' = Some (PInt 5)"
    by (simp_all add: mena_entry_def)
  have p: "parse_whole ''12000'' = Some 12000"
    by (simp add: parse_whole_def int_of_str_eval)
  have m1: "(''Trade_union_density'', PFloat 33, False) \<in> set preset_fields"
    and m2: "(''GDP_per_capita'', PFloat 41000, False) \<in> set preset_fields"
    and m3: "(''Health'', PFloat (64 / 1000), False) \<in> set preset_fields"
    and m4: "(''Inflation'', PFloat (21 / 10), False) \<in> set preset_fields"
    by (simp_all add: preset_fields_def)
  note b = t [THEN conjunct2, THEN conjunct2, THEN mp, OF h]
  note c5 = b [THEN conjunct2, THEN conjunct2, THEN conjunct2, THEN conjunct2]
  from h have ex: "\<exists>pv'. apply_preset parse_whole mena_entry = Inr pv'" by (rule exI)
  from c5 [THEN conjunct1] e1
  have pop: "map_of mena_values ''Population'' = Some (PInt 5000000)" by simp
  from c5 [THEN conjunct2, THEN conjunct2, THEN conjunct2, THEN conjunct2] e2
  have reg: "region_indicators mena_values
      = [Some (PInt 0), Some (PInt 0), Some (PInt 0), Some (PInt 1)]" by simp
  note fl = c5 [THEN conjunct2, THEN conjunct1]
  note mi = c5 [THEN conjunct2, THEN conjunct2, THEN conjunct1]
  from fl [THEN bspec, OF m2] e4 p
  have gdp: "map_of mena_values ''GDP_per_capita'' = Some (PFloat 12000)" by simp
  from fl [THEN bspec, OF m3] e5
  have hea: "map_of mena_values ''Health'' = Some (PFloat (3 / 100))" by simp
  from fl [THEN bspec, OF m4] e6
  have inf: "map_of mena_values ''Inflation'' = Some (PFloat 5)" by simp
  from mi [THEN bspec, OF m1] e3
  have tu: "map_of mena_values ''Trade_union_density'' = Some (PFloat 33)" by simp
  from ex h pop gdp hea inf tu reg show ?thesis by simp
qed

lemma apply_preset_north_america:
  "apply_preset parse_whole north_america_entry = Inr north_america_values"
  by (simp add: apply_preset_def north_america_entry_def north_america_values_def
      map_regions_def preset_fields_def dict_get_def coerce_def)

lemma count_one_hot:
  "r \<in> PStr ` set region_options \<Longrightarrow>
     count_list (map (\<lambda>name. Some (PInt (if r = PStr name then 1 else 0))) region_options)
       (Some (PInt 1)) = 1
   \<and> count_list (map (\<lambda>name. Some (PInt (if r = PStr name then 1 else 0))) region_options)
       (Some (PInt 0)) = 3"
  by (auto simp: region_options_def)

lemma all_zero_unknown:
  "r \<notin> PStr ` set region_options \<Longrightarrow>
     map (\<lambda>name. Some (PInt (if r = PStr name then 1 else 0))) region_options
       = replicate 4 (Some (PInt 0))"
  by (auto simp: region_options_def numeral_eq_Suc)

lemma set_region_known:
  assumes "region \<in> set region_options"
  shows "\<exists>c'. set_region c (PStr region) = Inr c'
           \<and> region_indicators (feature_values c') =
               map (\<lambda>name. Some (PInt (if PStr region = PStr name then 1 else 0))) region_options"
  by (simp add: set_region_def map_regions_hashable region_indicators_def region_keys_def
      feature_values_def region_options_def)

text \<open>
  Claim C3, as the code has it. A region chosen among the four options of the region
  selector gives the control layer's feature dictionary exactly one indicator equal to 1
  and three equal to 0. A preset that applies gives exactly one indicator equal to 1 and
  three equal to 0 when its Region (or, the field missing, the default "Europe and
  Central Asia") is one of the four known names, and four indicators equal to 0 when it
  is any other value.
\<close>

theorem region_one_hot_for_known_regions:
  "(region \<in> set region_options \<longrightarrow>
      (\<exists>c'. set_region c (PStr region) = Inr c'
         \<and> count_list (region_indicators (feature_values c')) (Some (PInt 1)) = 1
         \<and> count_list (region_indicators (feature_values c')) (Some (PInt 0)) = 3))
   \<and> (apply_preset pf entry = Inr pv \<longrightarrow>
        (if dict_get entry ''Region'' (PStr ''Europe and Central Asia'') \<in> PStr ` set region_options
         then count_list (region_indicators pv) (Some (PInt 1)) = 1
            \<and> count_list (region_indicators pv) (Some (PInt 0)) = 3
         else region_indicators pv = replicate 4 (Some (PInt 0))))"
proof (intro conjI impI)
  assume r: "region \<in> set region_options"
  then have "PStr region \<in> PStr ` set region_options" by simp
  from count_one_hot [OF this] set_region_known [OF r, of c]
  show "\<exists>c'. set_region c (PStr region) = Inr c'
         \<and> count_list (region_indicators (feature_values c')) (Some (PInt 1)) = 1
         \<and> count_list (region_indicators (feature_values c')) (Some (PInt 0)) = 3"
    by auto
next
  assume a: "apply_preset pf entry = Inr pv"
  let ?r = "dict_get entry ''Region'' (PStr ''Europe and Central Asia'')"
  show "if ?r \<in> PStr ` set region_options
         then count_list (region_indicators pv) (Some (PInt 1)) = 1
            \<and> count_list (region_indicators pv) (Some (PInt 0)) = 3
         else region_indicators pv = replicate 4 (Some (PInt 0))"
  proof (cases "?r \<in> PStr ` set region_options")
    case True
    with count_one_hot [OF True] apply_preset_regions [OF a] show ?thesis by simp
  next
    case False
    with all_zero_unknown [OF False] apply_preset_regions [OF a] show ?thesis by simp
  qed
qed

theorem region_one_hot_for_known_regions_witness:
  "''Latin America and Caribbean'' \<in> set region_options
   \<and> apply_preset parse_whole mena_entry = Inr mena_values
   \<and> (\<exists>c'. set_region example_controls (PStr ''Latin America and Caribbean'') = Inr c'
         \<and> count_list (region_indicators (feature_values c')) (Some (PInt 1)) = 1
         \<and> count_list (region_indicators (feature_values c')) (Some (PInt 0)) = 3)
   \<and> count_list (region_indicators mena_values) (Some (PInt 1)) = 1
   \<and> count_list (region_indicators mena_values) (Some (PInt 0)) = 3"
proof -
  have h1: "''Latin America and Caribbean'' \<in> set region_options"
    by (simp add: region_options_def)
  have h2: "apply_preset parse_whole mena_entry = Inr mena_values"
    by (rule apply_preset_mena)
  have h3: "dict_get mena_entry ''Region'' (PStr ''Europe and Central Asia'')
              \<in> PStr ` set region_options"
    by (simp add: dict_get_def mena_entry_def region_options_def)
  from region_one_hot_for_known_regions
         [of "''Latin America and Caribbean''" example_controls parse_whole mena_entry mena_values]
       h1 h2 h3
  show ?thesis by simp
qed

text \<open>
  Claim C3 as stated fails: the preset of a country of the region "North America"
  has four indicators equal to 0, so none equals 1 and their sum is 0.
\<close>

theorem unknown_region_breaks_one_hot:
  "preset_regions parse_whole north_america_entry =
     Inr [Some (PInt 0), Some (PInt 0), Some (PInt 0), Some (PInt 0)]"
  by (simp add: preset_regions_def apply_preset_north_america north_america_values_def
      region_indicators_def region_keys_def)

text \<open>
  Claim C4, as the code has it. The default "Europe and Central Asia" is the default of
  \<^verbatim>\<open>matching_entry.get("Region", ...)\<close>: it applies when the preset has no Region field,
  and the indicators are then 0, 1, 0, 0. When the Region field is there and holds
  anything but one of the four known names, the four indicators are 0.
\<close>

theorem preset_region_default_only_when_missing:
  assumes "apply_preset pf entry = Inr pv"
  shows "(map_of entry ''Region'' = None \<longrightarrow>
            region_indicators pv = [Some (PInt 0), Some (PInt 1), Some (PInt 0), Some (PInt 0)])
       \<and> (\<forall>v. map_of entry ''Region'' = Some v \<and> v \<notin> PStr ` set region_options \<longrightarrow>
            region_indicators pv = [Some (PInt 0), Some (PInt 0), Some (PInt 0), Some (PInt 0)])"
proof (intro conjI impI allI)
  assume "map_of entry ''Region'' = None"
  then have "dict_get entry ''Region'' (PStr ''Europe and Central Asia'')
               = PStr ''Europe and Central Asia''"
    by (simp add: dict_get_def)
  with apply_preset_regions [OF assms]
  show "region_indicators pv = [Some (PInt 0), Some (PInt 1), Some (PInt 0), Some (PInt 0)]"
    by (simp add: region_options_def)
next
  fix v assume "map_of entry ''Region'' = Some v \<and> v \<notin> PStr ` set region_options"
  then have r: "dict_get entry ''Region'' (PStr ''Europe and Central Asia'') = v"
    and u: "v \<notin> PStr ` set region_options"
    by (simp_all add: dict_get_def)
  from all_zero_unknown [OF u] apply_preset_regions [OF assms] r
  show "region_indicators pv = [Some (PInt 0), Some (PInt 0), Some (PInt 0), Some (PInt 0)]"
    by (simp add: numeral_eq_Suc)
qed

lemmas apply_preset_eval =
  apply_preset_def map_regions_def preset_fields_def dict_get_def coerce_def
  region_indicators_def region_keys_def preset_regions_def

theorem preset_region_default_only_when_missing_witness:
  "preset_regions parse_whole no_region_entry =
     Inr [Some (PInt 0), Some (PInt 1), Some (PInt 0), Some (PInt 0)]
   \<and> map_of no_region_entry ''Region'' = None
   \<and> map_of sub_saharan_entry ''Region'' = Some (PStr ''Sub-Saharan Africa'')
   \<and> PStr ''Sub-Saharan Africa'' \<notin> PStr ` set region_options
   \<and> preset_regions parse_whole sub_saharan_entry =
       Inr [Some (PInt 0), Some (PInt 0), Some (PInt 0), Some (PInt 0)]"
proof -
  obtain pv1 where a1: "apply_preset parse_whole no_region_entry = Inr pv1"
    by (simp add: apply_preset_eval no_region_entry_def)
  obtain pv2 where a2: "apply_preset parse_whole sub_saharan_entry = Inr pv2"
    by (simp add: apply_preset_eval sub_saharan_entry_def)
  have h1: "map_of no_region_entry ''Region'' = None"
    by (simp add: no_region_entry_def)
  have h2: "map_of sub_saharan_entry ''Region'' = Some (PStr ''Sub-Saharan Africa'')"
    by (simp add: sub_saharan_entry_def)
  have h3: "PStr ''Sub-Saharan Africa'' \<notin> PStr ` set region_options"
    by (simp add: region_options_def)
  from preset_region_default_only_when_missing [OF a1] h1
  have r1: "region_indicators pv1 = [Some (PInt 0), Some (PInt 1), Some (PInt 0), Some (PInt 0)]"
    by blast
  from preset_region_default_only_when_missing [OF a2] h2 h3
  have r2: "region_indicators pv2 = [Some (PInt 0), Some (PInt 0), Some (PInt 0), Some (PInt 0)]"
    by blast
  show ?thesis
    using a1 a2 r1 r2 h1 h2 h3 by (simp add: preset_regions_def)
qed

text \<open>
  Claim C4 as stated fails: a preset whose Region is "Sub-Saharan Africa", a name
  outside the four, gets the indicators 0, 0, 0, 0, while a preset of "Europe and
  Central Asia" gets 0, 1, 0, 0.
\<close>

theorem unknown_region_not_treated_as_europe:
  "preset_regions parse_whole sub_saharan_entry =
     Inr [Some (PInt 0), Some (PInt 0), Some (PInt 0), Some (PInt 0)]
   \<and> preset_regions parse_whole europe_entry =
     Inr [Some (PInt 0), Some (PInt 1), Some (PInt 0), Some (PInt 0)]"
  by (simp add: apply_preset_eval sub_saharan_entry_def europe_entry_def)

section \<open>The default region\<close>

text \<open>
  Claim C5 at a preset with no indicator set. Applying the preset of a country of the
  region "North America" stores four indicators equal to 0; with that preset selected
  and no graph loaded, \<^verbatim>\<open>get_default_region\<close> returns \<^verbatim>\<open>None\<close>, which is no index among
  0, 1, 2, 3: \<^verbatim>\<open>get_region_from_features\<close> ends without a \<^verbatim>\<open>return\<close>.
\<close>

theorem default_region_none_for_zero_preset:
  "apply_preset parse_whole north_america_entry = Inr north_america_values
   \<and> get_default_region None (Some north_america_values) = Inr PNone"
  by (simp add: apply_preset_north_america)
     (simp add: get_default_region_def graph_features_def preset_present_def
        get_region_from_features_def north_america_values_def dict_item_def eq_one_def)

lemma get_region_from_features_index:
  assumes "map_of fs ''Region_East_Asia_and_Pacific'' = Some a"
    and "map_of fs ''Region_Europe_and_Central_Asia'' = Some b"
    and "map_of fs ''Region_Latin_America_and_Caribbean'' = Some l"
    and "map_of fs ''Region_Middle_East_and_North_Africa'' = Some m"
  shows "get_region_from_features (PDict fs) =
           Inr (if eq_one a then PInt 0 else if eq_one b then PInt 1
                else if eq_one l then PInt 2 else if eq_one m then PInt 3 else PNone)"
  using assms by (simp add: get_region_from_features_def dict_item_def)

lemma get_default_region_no_override: "get_default_region None None = Inr (PInt 0)"
  by (simp add: get_default_region_def graph_features_def preset_present_def)

section \<open>Default values\<close>

lemma graph_features_Some:
  "map_of g ''features'' = Some fs \<Longrightarrow> graph_features (Some g) = Some fs"
  by (simp add: graph_features_def)

text \<open>
  Claim C2, as the code has it. When the loaded graph has the key \<^verbatim>\<open>features\<close> (holding
  a dictionary), the default of a feature is the coerced value of that dictionary at the
  feature's key, or the coerced hardcoded default when the dictionary lacks the key; the
  preset is not read. When no graph is loaded, or the loaded graph has no key
  \<^verbatim>\<open>features\<close>, and a non-empty preset is selected, the default is the coerced value of
  the preset at the key, or the coerced hardcoded default when the preset lacks it.
  Otherwise it is the coerced hardcoded default; with neither graph nor preset each of
  the eleven controls gets its hardcoded default (Population 22,000,000 and GDP per
  capita 41,000.0 among them).
\<close>

theorem default_value_resolution:
  "(map_of g ''features'' = Some (PDict fs) \<longrightarrow>
      get_default_value pf (Some g) sp key dflt as_int = coerce pf as_int (dict_get fs key dflt))
   \<and> ((lg = None \<or> (\<exists>g'. lg = Some g' \<and> map_of g' ''features'' = None)) \<and> p \<noteq> [] \<longrightarrow>
      get_default_value pf lg (Some p) key dflt as_int = coerce pf as_int (dict_get p key dflt))
   \<and> ((lg = None \<or> (\<exists>g'. lg = Some g' \<and> map_of g' ''features'' = None))
        \<and> (sp = None \<or> sp = Some []) \<longrightarrow>
      get_default_value pf lg sp key dflt as_int = coerce pf as_int dflt)
   \<and> (\<forall>c \<in> set control_defaults. default_of pf None None c = Inr (fst (snd c)))
   \<and> get_default_value pf None None ''Population'' (PInt 22000000) True = Inr (PInt 22000000)
   \<and> get_default_value pf None None ''GDP_per_capita'' (PFloat 41000) False = Inr (PFloat 41000)"
proof (intro conjI impI)
  assume "map_of g ''features'' = Some (PDict fs)"
  then show "get_default_value pf (Some g) sp key dflt as_int
               = coerce pf as_int (dict_get fs key dflt)"
    by (simp add: get_default_value_def graph_features_def)
next
  assume "(lg = None \<or> (\<exists>g'. lg = Some g' \<and> map_of g' ''features'' = None)) \<and> p \<noteq> []"
  then have "graph_features lg = None" and "preset_present (Some p) = Some p"
    by (auto simp: graph_features_def preset_present_def)
  then show "get_default_value pf lg (Some p) key dflt as_int
               = coerce pf as_int (dict_get p key dflt)"
    by (simp add: get_default_value_def)
next
  assume "(lg = None \<or> (\<exists>g'. lg = Some g' \<and> map_of g' ''features'' = None))
            \<and> (sp = None \<or> sp = Some [])"
  then have "graph_features lg = None" and "preset_present sp = None"
    by (auto simp: graph_features_def preset_present_def)
  then show "get_default_value pf lg sp key dflt as_int = coerce pf as_int dflt"
    by (simp add: get_default_value_def)
next
  show "\<forall>c \<in> set control_defaults. default_of pf None None c = Inr (fst (snd c))"
    by (simp add: control_defaults_def default_of_def get_default_value_def
        graph_features_def preset_present_def coerce_def)
next
  show "get_default_value pf None None ''Population'' (PInt 22000000) True = Inr (PInt 22000000)"
    by (simp add: get_default_value_def graph_features_def preset_present_def coerce_def)
next
  show "get_default_value pf None None ''GDP_per_capita'' (PFloat 41000) False
          = Inr (PFloat 41000)"
    by (simp add: get_default_value_def graph_features_def preset_present_def coerce_def)
qed

theorem default_value_resolution_witness:
  "map_of graph_with_features ''features''
     = Some (PDict [(''Population'', PInt 9000000), (''GDP_per_capita'', PInt 30000)])
   \<and> get_default_value parse_whole (Some graph_with_features) (Some small_preset)
       ''Population'' (PInt 22000000) True = Inr (PInt 9000000)
   \<and> get_default_value parse_whole None (Some small_preset)
       ''Population'' (PInt 22000000) True = Inr (PInt 5000000)
   \<and> get_default_value parse_whole None None
       ''Health'' (PFloat (64 / 1000)) False = Inr (PFloat (64 / 1000))
   \<and> (''Health'', PFloat (64 / 1000), False) \<in> set control_defaults
   \<and> default_of parse_whole None None (''Health'', PFloat (64 / 1000), False)
       = Inr (PFloat (64 / 1000))"
proof -
  let ?fs = "[(''Population'', PInt 9000000), (''GDP_per_capita'', PInt 30000)]"
  have h1: "map_of graph_with_features ''features'' = Some (PDict ?fs)"
    by (simp add: graph_with_features_def)
  have h2: "small_preset \<noteq> []"
    by (simp add: small_preset_def)
  have h3: "(''Health'', PFloat (64 / 1000), False) \<in> set control_defaults"
    by (simp add: control_defaults_def)
  note t1 = default_value_resolution
    [of graph_with_features ?fs parse_whole "Some small_preset" "''Population''"
        "PInt 22000000" True None small_preset]
  note t2 = default_value_resolution
    [of graph_with_features ?fs parse_whole None "''Health''"
        "PFloat (64 / 1000)" False None small_preset]
  from t1 h1 h2 have a: "get_default_value parse_whole (Some graph_with_features)
       (Some small_preset) ''Population'' (PInt 22000000) True = Inr (PInt 9000000)"
    by (simp add: coerce_def dict_get_def)
  from t1 h2 have b: "get_default_value parse_whole None (Some small_preset)
       ''Population'' (PInt 22000000) True = Inr (PInt 5000000)"
    by (simp add: coerce_def dict_get_def small_preset_def)
  from t2 have c: "get_default_value parse_whole None None
       ''Health'' (PFloat (64 / 1000)) False = Inr (PFloat (64 / 1000))"
    by (simp add: coerce_def)
  from t2 h3 have d: "default_of parse_whole None None (''Health'', PFloat (64 / 1000), False)
       = Inr (PFloat (64 / 1000))"
    by fastforce
  from h1 h3 a b c d show ?thesis by simp
qed

text \<open>
  Claim C2 as stated fails, with a loaded graph and a preset both in the session. A
  loaded graph without the key \<^verbatim>\<open>features\<close> leaves Population to the preset (5,000,000).
  A loaded graph whose features lack Health gives Health the hardcoded default 0.064,
  although the preset has Health 0.1 and both a graph and a preset are present.
\<close>

theorem loaded_graph_does_not_always_win:
  "get_default_value parse_whole (Some graph_without_features) (Some small_preset)
     ''Population'' (PInt 22000000) True = Inr (PInt 5000000)
   \<and> get_default_value parse_whole (Some graph_with_features) (Some small_preset)
     ''Health'' (PFloat (64 / 1000)) False = Inr (PFloat (64 / 1000))"
  by (simp add: get_default_value_def graph_features_def preset_present_def coerce_def
      dict_get_def graph_without_features_def graph_with_features_def small_preset_def)

section \<open>Generating a graph\<close>


lemma generate_real_predictions_failed:
  assumes "fetch_failed (http (predict_request fv x_axis xmin xmax n))"
  shows "snd (generate_real_predictions http fv x_axis xmin xmax n) = Inr (PNone, PNone)"
proof (cases "http (predict_request fv x_axis xmin xmax n)")
  case (Raised e)
  with assms obtain m where "e = RequestException m"
    by (cases e) auto
  with Raised show ?thesis
    by (simp add: generate_real_predictions_def)
next
  case (Response code body)
  with assms show ?thesis
    by (simp add: generate_real_predictions_def)
qed


lemmas generate_eval =
  generate_graph_button_def generate_real_predictions_def predict_request_def
  http_calls_def ui_errors_def



text \<open>
  Claim C9. When the prediction request fails (it raises a \<^verbatim>\<open>RequestException\<close> or
  answers with a status other than 200), the Generate Graph handler leaves the whole
  session state as it was, \<^verbatim>\<open>graph_data\<close> included, and raises nothing.
\<close>

theorem failed_sweep_keeps_session:
  assumes "fetch_failed (http (predict_request (feature_values c) (backend_feature_name c)
             (x_min c) (x_max c) (steps c)))"
  shows "snd (generate_graph_button http st c) = (st, None)
       \<and> graph_data (fst (snd (generate_graph_button http st c))) = graph_data st"
proof -
  let ?g = "generate_real_predictions http (feature_values c) (backend_feature_name c)
              (x_min c) (x_max c) (steps c)"
  from generate_real_predictions_failed
         [of http "feature_values c" "backend_feature_name c" "x_min c" "x_max c" "steps c"]
       assms
  have "snd ?g = Inr (PNone, PNone)" by simp
  then obtain evs where "?g = (evs, Inr (PNone, PNone))"
    by (cases ?g) auto
  then have "snd (generate_graph_button http st c) = (st, None)"
    by (simp add: generate_graph_button_def)
  then show ?thesis by simp
qed

theorem failed_sweep_keeps_session_witness:
  "fetch_failed (backend_down (predict_request (feature_values example_controls)
       (backend_feature_name example_controls) (x_min example_controls)
       (x_max example_controls) (steps example_controls)))
   \<and> fetch_failed (backend_500 (predict_request (feature_values example_controls)
       (backend_feature_name example_controls) (x_min example_controls)
       (x_max example_controls) (steps example_controls)))
   \<and> graph_data (fst (snd (generate_graph_button backend_down session_with_graph
        example_controls))) = Some shown_series
   \<and> graph_data (fst (snd (generate_graph_button backend_500 session_with_graph
        example_controls))) = Some shown_series
   \<and> length (http_calls (fst (generate_graph_button backend_500 session_with_graph
        example_controls))) = 1"
proof -
  have h1: "fetch_failed (backend_down (predict_request (feature_values example_controls)
       (backend_feature_name example_controls) (x_min example_controls)
       (x_max example_controls) (steps example_controls)))"
    by (simp add: backend_down_def)
  have h2: "fetch_failed (backend_500 (predict_request (feature_values example_controls)
       (backend_feature_name example_controls) (x_min example_controls)
       (x_max example_controls) (steps example_controls)))"
    by (simp add: backend_500_def)
  have g: "graph_data session_with_graph = Some shown_series"
    by (simp add: session_with_graph_def)
  have v: "x_min example_controls < x_max example_controls \<and> 5 \<le> steps example_controls"
    by (simp add: example_controls_def)
  have n: "length (http_calls (fst (generate_graph_button backend_500 session_with_graph
        example_controls))) = 1"
    using v by (simp add: generate_eval backend_500_def)
  from failed_sweep_keeps_session [of backend_down example_controls session_with_graph] h1
       failed_sweep_keeps_session [of backend_500 example_controls session_with_graph] h2
       h1 h2 g n
  show ?thesis by simp
qed

section \<open>Saving a graph\<close>

text \<open>
  Claim C8. With an empty graph name the Save Graph block sends no request, shows
  nothing and leaves the session state as it was, whether the button was clicked or not.
\<close>

theorem empty_graph_name_not_saved:
  "save_graph_button http st user_id c clicked [] = ([], st, None)"
  by (simp add: save_graph_button_def)

lemma save_graph_button_sends_named:
  "graph_data st \<noteq> None \<Longrightarrow> graph_name \<noteq> [] \<Longrightarrow>
     http_calls (fst (save_graph_button http st user_id c True graph_name))
       = [save_request user_id graph_name (backend_feature_name c)
            (x_min c) (x_max c) (steps c) (feature_values c)]"
  by (auto simp: save_graph_button_def save_graph_to_backend_def http_calls_def Let_def
      split: http_outcome.splits sum.splits option.splits pyval.splits)

theorem empty_graph_name_not_saved_witness:
  "save_graph_button backend_ok session_with_graph ''42'' example_controls True []
     = ([], session_with_graph, None)
   \<and> http_calls (fst (save_graph_button backend_ok session_with_graph ''42''
        example_controls True [])) = []
   \<and> length (http_calls (fst (save_graph_button backend_ok session_with_graph ''42''
        example_controls True ''My Graph''))) = 1"
proof -
  have g: "graph_data session_with_graph \<noteq> None"
    by (simp add: session_with_graph_def)
  have n: "length (http_calls (fst (save_graph_button backend_ok session_with_graph ''42''
        example_controls True ''My Graph''))) = 1"
    using save_graph_button_sends_named [OF g, of "''My Graph''" backend_ok "''42''" example_controls]
    by simp
  from empty_graph_name_not_saved [of backend_ok session_with_graph "''42''" example_controls True]
       n
  show ?thesis by (simp add: http_calls_def)
qed

section \<open>The calls of the backend\<close>

text \<open>
  Claim C6 at an unreachable backend. The fetch of the graph named by
  \<^verbatim>\<open>loaded_graph_id\<close> and the fetch of the standard deviations are sent with no timeout
  and the \<^verbatim>\<open>RequestException\<close> leaves the page; \<^verbatim>\<open>load_graph_from_backend\<close>, which asks
  for the same graph, has the timeout of 10 seconds and returns \<^verbatim>\<open>None\<close>.
\<close>

theorem unguarded_calls_propagate:
  "load_graph_by_id backend_down (empty_session\<lparr>loaded_graph_id := Some ''7''\<rparr>)
     = ([HttpCall (Request ''GET'' ''http://web-api:4000/playground/graph/7'' None None)],
        Inl (RequestException ''Connection refused''))
   \<and> compared_value_and_std backend_down example_controls
     = ([HttpCall (Request ''GET'' ''http://web-api:4000/models/playground/stds'' None None)],
        Inl (RequestException ''Connection refused''))
   \<and> load_graph_from_backend backend_down ''7''
     = ([HttpCall (Request ''GET'' ''http://web-api:4000/playground/graph/7'' (Some 10) None)],
        Inr PNone)"
  by (simp add: load_graph_by_id_def compared_value_and_std_def load_graph_from_backend_def
      inline_graph_request_def stds_request_def graph_request_def backend_down_def
      empty_session_def example_controls_def FEATURE_MAPPING_def feature_values_def
      dict_item_def API_BASE_URL_def)

lemma wrapped_calls_have_timeout:
  "req_timeout features_request = Some 10"
  "req_timeout presets_request = Some 10"
  "req_timeout (save_request u n a lo hi k fv) = Some 10"
  "req_timeout (graph_request g) = Some 10"
  "req_timeout (saved_graphs_request u) = Some 10"
  "req_timeout (predict_request fv a lo hi k) = Some 10"
  by (simp_all add: features_request_def presets_request_def save_request_def
      graph_request_def saved_graphs_request_def predict_request_def)

lemma unguarded_calls_have_no_timeout:
  "req_timeout (inline_graph_request g) = None"
  "req_timeout stds_request = None"
  by (simp_all add: inline_graph_request_def stds_request_def)

lemma fetch_failed_Raised: "fetch_failed (Raised e) = (\<exists>m. e = RequestException m)"
  by (cases e) auto

lemma wrapped_calls_return_on_failure:
  "fetch_failed (http (saved_graphs_request u)) \<Longrightarrow>
     snd (fetch_saved_graphs http u) = Inr (PList [])"
  "fetch_failed (http (graph_request g)) \<Longrightarrow>
     snd (load_graph_from_backend http g) = Inr PNone"
  "fetch_failed (http presets_request) \<Longrightarrow> snd (fetch_preset_options http) = Inr PNone"
  "http (save_request u n a lo hi k fv) = Raised (RequestException m) \<Longrightarrow>
     snd (save_graph_to_backend http u n a lo hi k fv) = Inr (False, PDict [(''error'', PStr m)])"
  "http (save_request u n a lo hi k fv) = Response code body \<Longrightarrow> code \<noteq> 201 \<Longrightarrow>
     snd (save_graph_to_backend http u n a lo hi k fv) = Inr (False, body)"
  by (auto simp: fetch_saved_graphs_def load_graph_from_backend_def fetch_preset_options_def
      save_graph_to_backend_def Let_def fetch_failed_Raised split: http_outcome.splits)

end
